theory Spec2Isabelle
  imports Main "HOL-Library.Char_ord" "HOL-Library.List_Lexorder"
    "HOL-Library.Product_Lexorder"
begin

section \<open>Python values handed to the query layer\<close>

text \<open>
  Every selector argument of \<^verbatim>\<open>Database\<close> in \<^verbatim>\<open>xbob/db/mobio/query.py\<close> is
  \<^verbatim>\<open>None\<close>, a scalar, a tuple or a list. \<^verbatim>\<open>None\<close> is the \<open>None\<close> of an option;
  the other three shapes are kept apart because \<^verbatim>\<open>__check_validity__\<close> tests
  \<^verbatim>\<open>isinstance(l, (tuple, list))\<close> and returns the very value it was given.
\<close>

datatype 'a pyseq = PTuple "'a list" | PList "'a list"

datatype 'a pyval = PScalar 'a | PSeq "'a pyseq"

fun items :: "'a pyseq \<Rightarrow> 'a list" where
  "items (PTuple xs) = xs"
| "items (PList xs) = xs"

text \<open>\<^verbatim>\<open>len(s)\<close> of a tuple or a list.\<close>

definition py_len :: "'a pyseq \<Rightarrow> nat" where
  "py_len s = length (items s)"

text \<open>Truth value of a string, a tuple or a list: empty is false.\<close>

fun truthy :: "string pyval \<Rightarrow> bool" where
  "truthy (PScalar s) = (s \<noteq> [])"
| "truthy (PSeq s) = (items s \<noteq> [])"

text \<open>
  \<^verbatim>\<open>k in v\<close>: membership in a tuple or a list, substring test in a string.
\<close>

fun startswith :: "string \<Rightarrow> string \<Rightarrow> bool" where
  "startswith s k = (take (length k) s = k)"

fun substring :: "string \<Rightarrow> string \<Rightarrow> bool" where
  "substring k [] = (k = [])"
| "substring k (c # s) = (startswith (c # s) k \<or> substring k s)"

fun py_in :: "string \<Rightarrow> string pyval \<Rightarrow> bool" where
  "py_in k (PScalar s) = substring k s"
| "py_in k (PSeq s) = (k \<in> set (items s))"

text \<open>
  The values a column is compared with by SQLAlchemy's \<^verbatim>\<open>column.in_(v)\<close>: the
  elements of a tuple or list; a string is iterated character by character.
\<close>

fun in_values :: "string pyval \<Rightarrow> string list" where
  "in_values (PScalar s) = map (\<lambda>c. [c]) s"
| "in_values (PSeq s) = items s"

subsection \<open>Rendering with \<^verbatim>\<open>%s\<close>\<close>

text \<open>
  \<^verbatim>\<open>repr\<close> of a Python 2 byte string: single quotes, unless the string holds a
  single quote and no double quote; the quote and the backslash are escaped, tab, newline
  and carriage return are written \<^verbatim>\<open>\t\<close>, \<^verbatim>\<open>\n\<close>, \<^verbatim>\<open>\r\<close>, any other byte outside
  printable ASCII as \<^verbatim>\<open>\xNN\<close>.
\<close>

definition hex_digit :: "nat \<Rightarrow> char" where
  "hex_digit n = (''0123456789abcdef'') ! (n mod 16)"

definition repr_char :: "char \<Rightarrow> char \<Rightarrow> string" where
  "repr_char q c =
     (if c = q \<or> c = CHR 0x5C then [CHR 0x5C, c]
      else if c = CHR 0x09 then [CHR 0x5C, CHR ''t'']
      else if c = CHR 0x0A then [CHR 0x5C, CHR ''n'']
      else if c = CHR 0x0D then [CHR 0x5C, CHR ''r'']
      else if (of_char c :: nat) < 32 \<or> 127 \<le> (of_char c :: nat)
        then [CHR 0x5C, CHR ''x'', hex_digit (of_char c div 16), hex_digit (of_char c)]
      else [c])"

definition py_repr :: "string \<Rightarrow> string" where
  "py_repr s =
     (let q = (if CHR 0x27 \<in> set s \<and> CHR 0x22 \<notin> set s then CHR 0x22 else CHR 0x27)
      in [q] @ concat (map (repr_char q) s) @ [q])"

fun join :: "string \<Rightarrow> string list \<Rightarrow> string" where
  "join sep [] = []"
| "join sep [x] = x"
| "join sep (x # y # ys) = x @ sep @ join sep (y # ys)"

text \<open>\<^verbatim>\<open>str\<close> of a tuple or list of strings, as \<^verbatim>\<open>%s\<close> renders it.\<close>

fun py_str :: "string pyseq \<Rightarrow> string" where
  "py_str (PTuple xs) =
     (if length xs = 1 then ''('' @ py_repr (hd xs) @ '',)''
      else ''('' @ join '', '' (map py_repr xs) @ '')'')"
| "py_str (PList xs) = ''['' @ join '', '' (map py_repr xs) @ '']''"

section \<open>Errors\<close>

text \<open>
  The module raises \<^verbatim>\<open>RuntimeError\<close> with a message for an unavailable store and for
  an invalid selector value. The other constructors are the exceptions the interpreter
  and SQLAlchemy raise by themselves: a name that is not bound, an attribute read on
  \<^verbatim>\<open>None\<close>, \<^verbatim>\<open>Query.one()\<close> on zero or several rows, and an integer that the SQLite
  driver cannot bind as a parameter.
\<close>

datatype error =
    RuntimeError string
  | NameError string
  | AttributeError string
  | NoResultFound
  | MultipleResultsFound
  | OverflowError

definition ebind :: "error + 'a \<Rightarrow> ('a \<Rightarrow> error + 'b) \<Rightarrow> error + 'b" where
  "ebind m f = (case m of Inl e \<Rightarrow> Inl e | Inr v \<Rightarrow> f v)"

section \<open>Input validation\<close>

text \<open>
  \<^verbatim>\<open>'Invalid %s "%s". Valid values are %s, or lists/tuples of those' % (obj, k, valid)\<close>
\<close>

definition invalid_message :: "string \<Rightarrow> string \<Rightarrow> string pyseq \<Rightarrow> string" where
  "invalid_message obj k valid =
     ''Invalid '' @ obj @ [CHR 0x20, CHR 0x22] @ k @ [CHR 0x22] @
     ''. Valid values are '' @ py_str valid @ '', or lists/tuples of those''"

text \<open>The loop \<^verbatim>\<open>for k in l: if k not in valid: raise ...\<close>.\<close>

fun check_each :: "string \<Rightarrow> string pyseq \<Rightarrow> string list \<Rightarrow> error + unit" where
  "check_each obj valid [] = Inr ()"
| "check_each obj valid (k # ks) =
     (if k \<notin> set (items valid) then Inl (RuntimeError (invalid_message obj k valid))
      else check_each obj valid ks)"

text \<open>
  \<^verbatim>\<open>Database.__check_validity__(l, obj, valid, default)\<close>. A scalar is wrapped into a
  one-element tuple and the function calls itself once more.
\<close>

function check_validity ::
  "string pyval option \<Rightarrow> string \<Rightarrow> string pyseq \<Rightarrow> string pyval \<Rightarrow> error + string pyval"
where
  "check_validity None obj valid dflt = Inr dflt"
| "check_validity (Some (PScalar s)) obj valid dflt =
     (if \<not> truthy (PScalar s) then Inr dflt
      else check_validity (Some (PSeq (PTuple [s]))) obj valid dflt)"
| "check_validity (Some (PSeq l)) obj valid dflt =
     (if \<not> truthy (PSeq l) then Inr dflt
      else ebind (check_each obj valid (items l)) (\<lambda>_. Inr (PSeq l)))"
  by pat_completeness auto
termination
  by (relation "measure (\<lambda>(l, obj, valid, dflt).
        case l of Some (PScalar s) \<Rightarrow> 1 | _ \<Rightarrow> 0)") auto

section \<open>The relational store\<close>

text \<open>
  The tables the module queries are declared in \<^verbatim>\<open>models.py\<close>; the rows below carry
  the columns that \<^verbatim>\<open>query.py\<close> reads (\<^verbatim>\<open>Client.id\<close> is \<open>Client_id\<close>, and so on). The
  many-to-many relationships \<^verbatim>\<open>Client.subworld\<close>, \<^verbatim>\<open>File.subworld\<close>,
  \<^verbatim>\<open>File.protocol_purposes\<close> and \<^verbatim>\<open>File.tmodels\<close> are association tables of id pairs.
\<close>

record Client =
  Client_id :: int
  Client_gender :: string
  Client_sgroup :: string

record Subworld =
  Subworld_id :: int
  Subworld_name :: string

record File =
  File_id :: int
  File_client_id :: int
  File_session_id :: int
  File_speech_type :: string
  File_shot_id :: int
  File_device :: string
  File_path :: string

record Protocol =
  Protocol_id :: int
  Protocol_name :: string

record ProtocolPurpose =
  ProtocolPurpose_id :: int
  ProtocolPurpose_protocol_id :: int
  ProtocolPurpose_sgroup :: string
  ProtocolPurpose_purpose :: string

record TModel =
  TModel_id :: string
  TModel_client_id :: int

record store =
  t_client :: "Client list"
  t_subworld :: "Subworld list"
  t_file :: "File list"
  t_protocol :: "Protocol list"
  t_protocolPurpose :: "ProtocolPurpose list"
  t_tmodel :: "TModel list"
  subworld_client_association :: "(int \<times> int) list"
  subworld_file_association :: "(int \<times> int) list"
  protocolPurpose_file_association :: "(int \<times> int) list"
  tmodel_file_association :: "(string \<times> int) list"

text \<open>
  \<^verbatim>\<open>list(q)\<close> for a query of one mapped entity: SQLAlchemy returns each entity once, at
  its first row, however many joined rows carry it.
\<close>

definition unique_list :: "'a list \<Rightarrow> 'a list" where
  "unique_list xs = rev (remdups (rev xs))"

text \<open>
  \<^verbatim>\<open>list(set(retval))\<close>: the elements of \<^verbatim>\<open>retval\<close>, each once. Python fixes no
  iteration order for a set; the model lists them by first occurrence, and nothing below
  depends on the order.
\<close>

definition list_of_set :: "'a list \<Rightarrow> 'a list" where
  "list_of_set xs = unique_list xs"

text \<open>
  \<^verbatim>\<open>order_by(File.client_id, File.session_id, File.speech_type, File.shot_id, File.device)\<close>
\<close>

definition file_order :: "File \<Rightarrow> int \<times> int \<times> string \<times> int \<times> string" where
  "file_order f =
     (File_client_id f, File_session_id f, File_speech_type f, File_shot_id f, File_device f)"

text \<open>The joined rows of \<^verbatim>\<open>session.query(File).join(Client)\<close>.\<close>

definition File_join_Client :: "store \<Rightarrow> (File \<times> Client) list" where
  "File_join_Client s =
     [(f, c). f \<leftarrow> t_file s, c \<leftarrow> t_client s, File_client_id f = Client_id c]"

text \<open>
  The joined rows of
  \<^verbatim>\<open>session.query(File).join(Client).join(ProtocolPurpose, File.protocol_purposes).join(Protocol)\<close>.
\<close>

definition File_join_Protocol ::
  "store \<Rightarrow> (File \<times> Client \<times> ProtocolPurpose \<times> Protocol) list" where
  "File_join_Protocol s =
     [(f, c, pp, pr).
        (f, c) \<leftarrow> File_join_Client s,
        pp \<leftarrow> t_protocolPurpose s,
        (ProtocolPurpose_id pp, File_id f) \<in> set (protocolPurpose_file_association s),
        pr \<leftarrow> t_protocol s,
        ProtocolPurpose_protocol_id pp = Protocol_id pr]"

text \<open>
  \<^verbatim>\<open>q.join(Subworld, File.subworld).filter(Subworld.name.in_(subworld))\<close> keeps the rows
  of a file that is in a subworld of one of the given names (once per such subworld; the
  multiplicity is dropped by \<open>unique_list\<close>). Likewise for \<^verbatim>\<open>Client.subworld\<close>.
\<close>

definition File_in_subworld :: "store \<Rightarrow> string pyval \<Rightarrow> File \<Rightarrow> bool" where
  "File_in_subworld s subworld f =
     list_ex (\<lambda>w. (Subworld_id w, File_id f) \<in> set (subworld_file_association s)
                 \<and> Subworld_name w \<in> set (in_values subworld)) (t_subworld s)"

definition Client_in_subworld :: "store \<Rightarrow> string pyval \<Rightarrow> Client \<Rightarrow> bool" where
  "Client_in_subworld s subworld c =
     list_ex (\<lambda>w. (Subworld_id w, Client_id c) \<in> set (subworld_client_association s)
                 \<and> Subworld_name w \<in> set (in_values subworld)) (t_subworld s)"

section \<open>The Database object\<close>

text \<open>
  \<^verbatim>\<open>self.session\<close> is \<^verbatim>\<open>None\<close> when the SQLite file was not found by \<^verbatim>\<open>connect\<close>.
\<close>

record Database =
  session :: "store option"

text \<open>
  What the module takes from \<^verbatim>\<open>driver.py\<close> and \<^verbatim>\<open>models.py\<close>: \<^verbatim>\<open>INFO.name()\<close>,
  \<^verbatim>\<open>SQLITE_FILE\<close>, the class constants \<^verbatim>\<open>Client.gender_choices\<close>,
  \<^verbatim>\<open>ProtocolPurpose.group_choices\<close>, \<^verbatim>\<open>ProtocolPurpose.purpose_choices\<close> and the method
  \<^verbatim>\<open>File.make_path\<close>. They are parameters of the model.
\<close>

record config =
  INFO_name :: string
  SQLITE_FILE :: string
  Client_gender_choices :: "string pyseq"
  ProtocolPurpose_group_choices :: "string pyseq"
  ProtocolPurpose_purpose_choices :: "string pyseq"
  File_make_path :: "File \<Rightarrow> string \<Rightarrow> string \<Rightarrow> string"

definition is_valid :: "Database \<Rightarrow> bool" where
  "is_valid self = (session self \<noteq> None)"

definition unavailable_message :: "config \<Rightarrow> string" where
  "unavailable_message cfg =
     ''Database '' @ [CHR 0x27] @ INFO_name cfg @ [CHR 0x27] @
     '' cannot be found at expected location '' @ [CHR 0x27] @ SQLITE_FILE cfg @ [CHR 0x27] @
     ''. Create it and then try re-connecting using Database.connect()''"

definition assert_validity :: "config \<Rightarrow> Database \<Rightarrow> error + unit" where
  "assert_validity cfg self =
     (if \<not> is_valid self then Inl (RuntimeError (unavailable_message cfg)) else Inr ())"

text \<open>
  \<^verbatim>\<open>self.session.query\<close>: reading the attribute \<^verbatim>\<open>query\<close> of \<^verbatim>\<open>None\<close> raises
  \<^verbatim>\<open>AttributeError\<close>, so a method that reached a query on an invalid session would end
  with that error and not with the \<^verbatim>\<open>RuntimeError\<close> of \<open>assert_validity\<close>.
\<close>

definition session_query :: "Database \<Rightarrow> error + store" where
  "session_query self =
     (case session self of
        None \<Rightarrow> Inl (AttributeError
                  ([CHR 0x27] @ ''NoneType'' @ [CHR 0x27] @ '' object has no attribute '' @
                   [CHR 0x27] @ ''query'' @ [CHR 0x27]))
      | Some s \<Rightarrow> Inr s)"

text \<open>
  Executing a query hands the integers of its \<^verbatim>\<open>in_\<close> list to the SQLite driver as
  parameters. The driver binds an integer as a signed 64-bit value and raises
  \<^verbatim>\<open>OverflowError\<close> for one outside that range.
\<close>

definition sqlite_integer :: "int \<Rightarrow> bool" where
  "sqlite_integer i = (- (2 ^ 63) \<le> i \<and> i < 2 ^ 63)"

definition bind_integers :: "int list \<Rightarrow> error + unit" where
  "bind_integers params = (if list_all sqlite_integer params then Inr () else Inl OverflowError)"

text \<open>
  \<^verbatim>\<open>list(q)\<close>, or iterating over \<^verbatim>\<open>q\<close>: the query is run with its integer parameters and
  gives the rows it selects. Nothing else of the driver is modelled: a statement whose
  parameters are bound runs.
\<close>

definition list_query :: "int list \<Rightarrow> 'a list \<Rightarrow> error + 'a list" where
  "list_query params rows = ebind (bind_integers params) (\<lambda>_. Inr rows)"

text \<open>\<^verbatim>\<open>Query.one()\<close>\<close>

fun one :: "'a list \<Rightarrow> error + 'a" where
  "one [] = Inl NoResultFound"
| "one [x] = Inr x"
| "one (x # y # ys) = Inl MultipleResultsFound"

subsection \<open>Lookup helpers\<close>

definition groups :: "config \<Rightarrow> string pyseq" where
  "groups cfg = ProtocolPurpose_group_choices cfg"

definition genders :: "config \<Rightarrow> string pyseq" where
  "genders cfg = Client_gender_choices cfg"

definition purposes :: "config \<Rightarrow> string pyseq" where
  "purposes cfg = ProtocolPurpose_purpose_choices cfg"

definition subworlds :: "config \<Rightarrow> Database \<Rightarrow> error + Subworld list" where
  "subworlds cfg self =
     ebind (assert_validity cfg self) (\<lambda>_.
     ebind (session_query self) (\<lambda>s. Inr (t_subworld s)))"

definition subworld_names :: "config \<Rightarrow> Database \<Rightarrow> error + string list" where
  "subworld_names cfg self =
     ebind (assert_validity cfg self) (\<lambda>_.
     ebind (subworlds cfg self) (\<lambda>l. Inr (map Subworld_name l)))"

definition has_subworld :: "config \<Rightarrow> Database \<Rightarrow> string \<Rightarrow> error + bool" where
  "has_subworld cfg self name =
     ebind (assert_validity cfg self) (\<lambda>_.
     ebind (session_query self) (\<lambda>s.
       Inr (length (filter (\<lambda>w. Subworld_name w = name) (t_subworld s)) \<noteq> 0)))"

definition protocols :: "config \<Rightarrow> Database \<Rightarrow> error + Protocol list" where
  "protocols cfg self =
     ebind (assert_validity cfg self) (\<lambda>_.
     ebind (session_query self) (\<lambda>s. Inr (t_protocol s)))"

definition protocol_names :: "config \<Rightarrow> Database \<Rightarrow> error + string list" where
  "protocol_names cfg self =
     ebind (assert_validity cfg self) (\<lambda>_.
     ebind (protocols cfg self) (\<lambda>l. Inr (map Protocol_name l)))"

definition has_protocol :: "config \<Rightarrow> Database \<Rightarrow> string \<Rightarrow> error + bool" where
  "has_protocol cfg self name =
     ebind (assert_validity cfg self) (\<lambda>_.
     ebind (session_query self) (\<lambda>s.
       Inr (length (filter (\<lambda>p. Protocol_name p = name) (t_protocol s)) \<noteq> 0)))"

definition protocol :: "config \<Rightarrow> Database \<Rightarrow> string \<Rightarrow> error + Protocol" where
  "protocol cfg self name =
     ebind (assert_validity cfg self) (\<lambda>_.
     ebind (session_query self) (\<lambda>s.
       one (filter (\<lambda>p. Protocol_name p = name) (t_protocol s))))"

definition protocol_purposes :: "config \<Rightarrow> Database \<Rightarrow> error + ProtocolPurpose list" where
  "protocol_purposes cfg self =
     ebind (assert_validity cfg self) (\<lambda>_.
     ebind (session_query self) (\<lambda>s. Inr (t_protocolPurpose s)))"

definition has_client_id :: "config \<Rightarrow> Database \<Rightarrow> int \<Rightarrow> error + bool" where
  "has_client_id cfg self i =
     ebind (assert_validity cfg self) (\<lambda>_.
     ebind (session_query self) (\<lambda>s.
     ebind (list_query [i] (filter (\<lambda>c. Client_id c = i) (t_client s))) (\<lambda>rows.
       Inr (length rows \<noteq> 0))))"

definition client :: "config \<Rightarrow> Database \<Rightarrow> int \<Rightarrow> error + Client" where
  "client cfg self i =
     ebind (assert_validity cfg self) (\<lambda>_.
     ebind (session_query self) (\<lambda>s.
     ebind (list_query [i] (filter (\<lambda>c. Client_id c = i) (t_client s))) (\<lambda>rows.
       one rows)))"

definition get_client_id_from_model_id :: "int \<Rightarrow> int" where
  "get_client_id_from_model_id model_id = model_id"

section \<open>Client and model selection\<close>

text \<open>
  A method of \<^verbatim>\<open>Database\<close> takes the configuration, the object and its arguments, and
  returns a value or the error it raised. An argument left out by the caller is passed as
  the default of the Python signature: \<open>None\<close>, or \<^verbatim>\<open>'onethird'\<close> for the \<^verbatim>\<open>subworld\<close>
  of \<^verbatim>\<open>tclients\<close>, \<^verbatim>\<open>zclients\<close>, \<^verbatim>\<open>tmodels\<close>, \<^verbatim>\<open>tobjects\<close> and \<^verbatim>\<open>zobjects\<close>.
\<close>

text \<open>The query built by \<^verbatim>\<open>Database.clients\<close> from the validated selectors.\<close>

definition select_clients ::
  "store \<Rightarrow> string pyval \<Rightarrow> string pyval \<Rightarrow> string pyval \<Rightarrow> string pyval \<Rightarrow> Client list"
where
  "select_clients = (\<lambda>s protocol groups subworld gender.
      let q = t_client s;
          q = (if truthy protocol
               then filter (\<lambda>c. Client_gender c \<in> set (in_values protocol)) q else q);
          q = (if truthy groups
               then filter (\<lambda>c. Client_sgroup c \<in> set (in_values groups)) q else q);
          q = (if truthy subworld
               then filter (Client_in_subworld s subworld) q else q);
          q = (if truthy gender
               then filter (\<lambda>c. Client_gender c \<in> set (in_values gender)) q else q);
          q = sort_key Client_id q
      in unique_list q)"

definition clients ::
  "config \<Rightarrow> Database \<Rightarrow> string pyval option \<Rightarrow> string pyval option \<Rightarrow>
   string pyval option \<Rightarrow> string pyval option \<Rightarrow> error + Client list"
where
  "clients cfg self protocol_arg groups_arg subworld_arg gender_arg =
     ebind (assert_validity cfg self) (\<lambda>_.
     ebind (protocol_names cfg self) (\<lambda>VALID_PROTOCOLS.
     let VALID_GROUPS = groups cfg in
     ebind (subworld_names cfg self) (\<lambda>VALID_SUBWORLDS.
     let VALID_GENDERS = genders cfg in
     ebind (check_validity protocol_arg ''protocol'' (PList VALID_PROTOCOLS) (PScalar []))
       (\<lambda>protocol.
     ebind (check_validity groups_arg ''group'' VALID_GROUPS (PScalar [])) (\<lambda>groups.
     ebind (check_validity subworld_arg ''subworld'' (PList VALID_SUBWORLDS) (PScalar []))
       (\<lambda>subworld.
     ebind (check_validity gender_arg ''gender'' VALID_GENDERS (PScalar [])) (\<lambda>gender.
     ebind (session_query self) (\<lambda>s.
       Inr (select_clients s protocol groups subworld gender)))))))))"

text \<open>
  \<^verbatim>\<open>tclients\<close> has no \<^verbatim>\<open>assert_validity\<close> of its own; its first statement calls
  \<^verbatim>\<open>protocol_names\<close>, which asserts. It hands the validated selectors and the literal
  \<^verbatim>\<open>'world'\<close> to \<^verbatim>\<open>clients\<close>.
\<close>

definition tclients ::
  "config \<Rightarrow> Database \<Rightarrow> string pyval option \<Rightarrow> string pyval option \<Rightarrow>
   string pyval option \<Rightarrow> string pyval option \<Rightarrow> error + Client list"
where
  "tclients cfg self protocol_arg groups_arg subworld_arg gender_arg =
     ebind (protocol_names cfg self) (\<lambda>VALID_PROTOCOLS.
     let VALID_GROUPS = PTuple [''dev'', ''eval''] in
     ebind (subworld_names cfg self) (\<lambda>VALID_SUBWORLDS.
     let VALID_GENDERS = genders cfg in
     ebind (check_validity protocol_arg ''protocol'' (PList VALID_PROTOCOLS) (PScalar []))
       (\<lambda>protocol.
     ebind (check_validity groups_arg ''group'' VALID_GROUPS (PScalar [])) (\<lambda>groups.
     ebind (check_validity subworld_arg ''subworld'' (PList VALID_SUBWORLDS) (PScalar []))
       (\<lambda>subworld.
     ebind (check_validity gender_arg ''gender'' VALID_GENDERS (PScalar [])) (\<lambda>gender.
       clients cfg self (Some protocol) (Some (PScalar ''world'')) (Some subworld)
         (Some gender)))))))"

definition zclients ::
  "config \<Rightarrow> Database \<Rightarrow> string pyval option \<Rightarrow> string pyval option \<Rightarrow>
   string pyval option \<Rightarrow> string pyval option \<Rightarrow> error + Client list"
where
  "zclients cfg self protocol_arg groups_arg subworld_arg gender_arg =
     ebind (assert_validity cfg self) (\<lambda>_.
     let VALID_GROUPS = PTuple [''dev'', ''eval''] in
     ebind (check_validity groups_arg ''group'' VALID_GROUPS (PScalar [])) (\<lambda>groups.
       clients cfg self protocol_arg (Some (PScalar ''world'')) subworld_arg gender_arg))"

definition models ::
  "config \<Rightarrow> Database \<Rightarrow> string pyval option \<Rightarrow> string pyval option \<Rightarrow>
   string pyval option \<Rightarrow> string pyval option \<Rightarrow> error + Client list"
where
  "models cfg self protocol_arg groups_arg subworld_arg gender_arg =
     clients cfg self protocol_arg groups_arg subworld_arg gender_arg"

text \<open>
  The query of \<^verbatim>\<open>tmodels\<close>: \<^verbatim>\<open>session.query(TModel).join(Client)\<close>, narrowed by the
  client's subworld and gender, ordered by \<^verbatim>\<open>TModel.id\<close>. The statement after the
  \<^verbatim>\<open>return\<close> is never reached.
\<close>

definition select_tmodels :: "store \<Rightarrow> string pyval \<Rightarrow> string pyval \<Rightarrow> TModel list" where
  "select_tmodels s subworld gender =
     (let q = [(t, c). t \<leftarrow> t_tmodel s, c \<leftarrow> t_client s, TModel_client_id t = Client_id c];
          q = (if truthy subworld
               then filter (\<lambda>(t, c). Client_in_subworld s subworld c) q else q);
          q = (if truthy gender
               then filter (\<lambda>(t, c). Client_gender c \<in> set (in_values gender)) q else q);
          q = sort_key (TModel_id \<circ> fst) q
      in unique_list (map fst q))"

definition tmodels ::
  "config \<Rightarrow> Database \<Rightarrow> string pyval option \<Rightarrow> string pyval option \<Rightarrow>
   string pyval option \<Rightarrow> string pyval option \<Rightarrow> error + TModel list"
where
  "tmodels cfg self protocol_arg groups_arg subworld_arg gender_arg =
     ebind (assert_validity cfg self) (\<lambda>_.
     ebind (protocol_names cfg self) (\<lambda>VALID_PROTOCOLS.
     let VALID_GROUPS = PTuple [''dev'', ''eval''] in
     ebind (subworld_names cfg self) (\<lambda>VALID_SUBWORLDS.
     let VALID_GENDERS = genders cfg in
     ebind (check_validity protocol_arg ''protocol'' (PList VALID_PROTOCOLS) (PScalar []))
       (\<lambda>protocol.
     ebind (check_validity groups_arg ''group'' VALID_GROUPS (PScalar [])) (\<lambda>groups.
     ebind (check_validity subworld_arg ''subworld'' (PList VALID_SUBWORLDS) (PScalar []))
       (\<lambda>subworld.
     ebind (check_validity gender_arg ''gender'' VALID_GENDERS (PScalar [])) (\<lambda>gender.
     ebind (session_query self) (\<lambda>s.
       Inr (select_tmodels s subworld gender)))))))))"

section \<open>File selection\<close>

text \<open>
  \<^verbatim>\<open>objects\<close> turns \<^verbatim>\<open>model_ids\<close> into a sequence: \<^verbatim>\<open>None\<close> becomes the empty tuple,
  a value that is not iterable (an integer client id) a one-element tuple, a tuple or
  list is kept.
\<close>

fun normalise_model_ids :: "int pyval option \<Rightarrow> int pyseq" where
  "normalise_model_ids None = PTuple []"
| "normalise_model_ids (Some (PScalar m)) = PTuple [m]"
| "normalise_model_ids (Some (PSeq ms)) = ms"

text \<open>The block under \<^verbatim>\<open>if 'world' in groups\<close>.\<close>

definition world_files :: "store \<Rightarrow> string pyval \<Rightarrow> string pyval \<Rightarrow> int pyseq \<Rightarrow> File list" where
  "world_files s subworld gender model_ids =
     (let q = filter (\<lambda>(f, c). Client_sgroup c = ''world'') (File_join_Client s);
          q = (if truthy subworld
               then filter (\<lambda>(f, c). File_in_subworld s subworld f) q else q);
          q = (if truthy gender
               then filter (\<lambda>(f, c). Client_gender c \<in> set (in_values gender)) q else q);
          q = (if items model_ids \<noteq> []
               then filter (\<lambda>(f, c). File_client_id f \<in> set (items model_ids)) q else q);
          q = sort_key (file_order \<circ> fst) q
      in unique_list (map fst q))"

text \<open>
  The filter shared by the three dev/eval blocks:
  \<^verbatim>\<open>and_(Protocol.name.in_(protocol), ProtocolPurpose.sgroup.in_(groups), ProtocolPurpose.purpose == p)\<close>
\<close>

definition purpose_rows ::
  "store \<Rightarrow> string pyval \<Rightarrow> string pyval \<Rightarrow> string \<Rightarrow>
   (File \<times> Client \<times> ProtocolPurpose \<times> Protocol) list"
where
  "purpose_rows = (\<lambda>s protocol groups p.
     filter (\<lambda>(f, c, pp, pr).
        Protocol_name pr \<in> set (in_values protocol)
        \<and> ProtocolPurpose_sgroup pp \<in> set (in_values groups)
        \<and> ProtocolPurpose_purpose pp = p) (File_join_Protocol s))"

text \<open>The block under \<^verbatim>\<open>if 'enrol' in purposes\<close>.\<close>

definition enrol_files ::
  "store \<Rightarrow> string pyval \<Rightarrow> string pyval \<Rightarrow> string pyval \<Rightarrow> int pyseq \<Rightarrow> File list"
where
  "enrol_files = (\<lambda>s protocol groups gender model_ids.
      let q = purpose_rows s protocol groups ''enrol'';
          q = (if truthy gender
               then filter (\<lambda>(f, c, pp, pr). Client_gender c \<in> set (in_values gender)) q
               else q);
          q = (if items model_ids \<noteq> []
               then filter (\<lambda>(f, c, pp, pr). Client_id c \<in> set (items model_ids)) q else q);
          q = sort_key (file_order \<circ> fst) q
      in unique_list (map fst q))"

text \<open>The block under \<^verbatim>\<open>if 'client' in classes\<close>.\<close>

definition probe_client_files ::
  "store \<Rightarrow> string pyval \<Rightarrow> string pyval \<Rightarrow> string pyval \<Rightarrow> int pyseq \<Rightarrow> File list"
where
  "probe_client_files = (\<lambda>s protocol groups gender model_ids.
      let q = purpose_rows s protocol groups ''probe'';
          q = (if truthy gender
               then filter (\<lambda>(f, c, pp, pr). Client_gender c \<in> set (in_values gender)) q
               else q);
          q = (if items model_ids \<noteq> []
               then filter (\<lambda>(f, c, pp, pr). Client_id c \<in> set (items model_ids)) q else q);
          q = sort_key (file_order \<circ> fst) q
      in unique_list (map fst q))"

text \<open>
  The block under \<^verbatim>\<open>if 'impostor' in classes\<close>: the files of the given model are
  taken out when \<^verbatim>\<open>len(model_ids) == 1\<close>, and only then.
\<close>

definition probe_impostor_files ::
  "store \<Rightarrow> string pyval \<Rightarrow> string pyval \<Rightarrow> string pyval \<Rightarrow> int pyseq \<Rightarrow> File list"
where
  "probe_impostor_files = (\<lambda>s protocol groups gender model_ids.
      let q = purpose_rows s protocol groups ''probe'';
          q = (if truthy gender
               then filter (\<lambda>(f, c, pp, pr). Client_gender c \<in> set (in_values gender)) q
               else q);
          q = (if py_len model_ids = 1
               then filter (\<lambda>(f, c, pp, pr). File_client_id f \<notin> set (items model_ids)) q
               else q);
          q = sort_key (file_order \<circ> fst) q
      in unique_list (map fst q))"

text \<open>
  The statements of \<^verbatim>\<open>objects\<close> from \<^verbatim>\<open>retval = []\<close> to the \<^verbatim>\<open>return\<close>. Each
  \<^verbatim>\<open>retval += list(q)\<close> runs the query of its block. The model ids are parameters of a
  query when its filter on them is applied: when \<^verbatim>\<open>model_ids\<close> is not empty in the world,
  enrol and client blocks, when \<^verbatim>\<open>len(model_ids) == 1\<close> in the impostor block.
\<close>

definition select_objects ::
  "store \<Rightarrow> string pyval \<Rightarrow> string pyval \<Rightarrow> int pyseq \<Rightarrow> string pyval \<Rightarrow> string pyval \<Rightarrow>
   string pyval \<Rightarrow> string pyval \<Rightarrow> error + File list"
where
  "select_objects = (\<lambda>s protocol purposes model_ids groups classes subworld gender.
      let retval = [] in
      ebind (if py_in ''world'' groups
             then ebind (list_query (if items model_ids \<noteq> [] then items model_ids else [])
                           (world_files s subworld gender model_ids))
                    (\<lambda>rows. Inr (retval @ rows))
             else Inr retval) (\<lambda>retval.
      ebind (if py_in ''dev'' groups \<or> py_in ''eval'' groups then
               ebind (if py_in ''enrol'' purposes
                      then ebind (list_query
                                    (if items model_ids \<noteq> [] then items model_ids else [])
                                    (enrol_files s protocol groups gender model_ids))
                             (\<lambda>rows. Inr (retval @ rows))
                      else Inr retval) (\<lambda>retval.
               if py_in ''probe'' purposes then
                 ebind (if py_in ''client'' classes
                        then ebind (list_query
                                      (if items model_ids \<noteq> [] then items model_ids else [])
                                      (probe_client_files s protocol groups gender model_ids))
                               (\<lambda>rows. Inr (retval @ rows))
                        else Inr retval) (\<lambda>retval.
                 if py_in ''impostor'' classes
                 then ebind (list_query
                               (if py_len model_ids = 1 then items model_ids else [])
                               (probe_impostor_files s protocol groups gender model_ids))
                        (\<lambda>rows. Inr (retval @ rows))
                 else Inr retval)
               else Inr retval)
             else Inr retval) (\<lambda>retval.
      Inr (list_of_set retval))))"

definition objects ::
  "config \<Rightarrow> Database \<Rightarrow> string pyval option \<Rightarrow> string pyval option \<Rightarrow> int pyval option \<Rightarrow>
   string pyval option \<Rightarrow> string pyval option \<Rightarrow> string pyval option \<Rightarrow>
   string pyval option \<Rightarrow> error + File list"
where
  "objects cfg self protocol_arg purposes_arg model_ids_arg groups_arg classes_arg
     subworld_arg gender_arg =
     ebind (assert_validity cfg self) (\<lambda>_.
     ebind (protocol_names cfg self) (\<lambda>VALID_PROTOCOLS.
     let VALID_PURPOSES = purposes cfg;
         VALID_GROUPS = groups cfg;
         VALID_CLASSES = PTuple [''client'', ''impostor''] in
     ebind (subworld_names cfg self) (\<lambda>VALID_SUBWORLDS.
     let VALID_GENDERS = genders cfg in
     ebind (check_validity protocol_arg ''protocol'' (PList VALID_PROTOCOLS)
              (PSeq (PList VALID_PROTOCOLS))) (\<lambda>protocol.
     ebind (check_validity purposes_arg ''purpose'' VALID_PURPOSES (PSeq VALID_PURPOSES))
       (\<lambda>purposes.
     ebind (check_validity groups_arg ''group'' VALID_GROUPS (PSeq VALID_GROUPS)) (\<lambda>groups.
     ebind (check_validity classes_arg ''class'' VALID_CLASSES (PSeq VALID_CLASSES))
       (\<lambda>classes.
     ebind (check_validity subworld_arg ''subworld'' (PList VALID_SUBWORLDS) (PScalar []))
       (\<lambda>subworld.
     ebind (check_validity gender_arg ''gender'' VALID_GENDERS (PScalar [])) (\<lambda>gender.
     let model_ids = normalise_model_ids model_ids_arg in
     ebind (session_query self) (\<lambda>s.
       select_objects s protocol purposes model_ids groups classes subworld
         gender))))))))))"

text \<open>
  \<^verbatim>\<open>tobjects\<close> wraps a model id given as a string into a tuple. Its query joins
  \<^verbatim>\<open>TModel\<close> through \<^verbatim>\<open>File.tmodels\<close>; the later \<^verbatim>\<open>join(Client)\<close> is resolved from the
  table joined last, \<^verbatim>\<open>TModel\<close>.
\<close>

fun normalise_tmodel_ids :: "string pyval option \<Rightarrow> string pyseq" where
  "normalise_tmodel_ids None = PTuple []"
| "normalise_tmodel_ids (Some (PScalar m)) = PTuple [m]"
| "normalise_tmodel_ids (Some (PSeq ms)) = ms"

definition select_tobjects ::
  "store \<Rightarrow> string pyseq \<Rightarrow> string pyval \<Rightarrow> string pyval \<Rightarrow> File list" where
  "select_tobjects s model_ids subworld gender =
     (let retval = [];
          q = t_file s;
          q = (if truthy subworld then filter (File_in_subworld s subworld) q else q);
          q = [(f, t). f \<leftarrow> q, t \<leftarrow> t_tmodel s,
                 (TModel_id t, File_id f) \<in> set (tmodel_file_association s)];
          q = (if items model_ids \<noteq> []
               then filter (\<lambda>(f, t). TModel_id t \<in> set (items model_ids)) q else q);
          q = (if truthy gender
               then filter (\<lambda>(f, t).
                      list_ex (\<lambda>c. TModel_client_id t = Client_id c
                                  \<and> Client_gender c \<in> set (in_values gender)) (t_client s)) q
               else q);
          q = sort_key (file_order \<circ> fst) q
      in retval @ unique_list (map fst q))"

definition tobjects ::
  "config \<Rightarrow> Database \<Rightarrow> string pyval option \<Rightarrow> string pyval option \<Rightarrow>
   string pyval option \<Rightarrow> string pyval option \<Rightarrow> string pyval option \<Rightarrow> error + File list"
where
  "tobjects cfg self protocol_arg model_ids_arg groups_arg subworld_arg gender_arg =
     ebind (assert_validity cfg self) (\<lambda>_.
     ebind (protocol_names cfg self) (\<lambda>VALID_PROTOCOLS.
     let VALID_GROUPS = PTuple [''dev'', ''eval''] in
     ebind (subworld_names cfg self) (\<lambda>VALID_SUBWORLDS.
     let VALID_GENDERS = genders cfg in
     ebind (check_validity protocol_arg ''protocol'' (PList VALID_PROTOCOLS)
              (PSeq (PList VALID_PROTOCOLS))) (\<lambda>protocol.
     ebind (check_validity groups_arg ''group'' VALID_GROUPS (PScalar [])) (\<lambda>groups.
     ebind (check_validity subworld_arg ''subworld'' (PList VALID_SUBWORLDS) (PScalar []))
       (\<lambda>subworld.
     ebind (check_validity gender_arg ''gender'' VALID_GENDERS (PScalar [])) (\<lambda>gender.
     let model_ids = normalise_tmodel_ids model_ids_arg in
     ebind (session_query self) (\<lambda>s.
       Inr (select_tobjects s model_ids subworld gender)))))))))"

definition zobjects ::
  "config \<Rightarrow> Database \<Rightarrow> string pyval option \<Rightarrow> int pyval option \<Rightarrow> string pyval option \<Rightarrow>
   string pyval option \<Rightarrow> string pyval option \<Rightarrow> error + File list"
where
  "zobjects cfg self protocol_arg model_ids_arg groups_arg subworld_arg gender_arg =
     ebind (assert_validity cfg self) (\<lambda>_.
     let VALID_GROUPS = PTuple [''dev'', ''eval''] in
     ebind (check_validity groups_arg ''group'' VALID_GROUPS (PScalar [])) (\<lambda>groups.
       objects cfg self protocol_arg None model_ids_arg (Some (PScalar ''world'')) None
         subworld_arg gender_arg))"

section \<open>Paths and ids\<close>

text \<open>
  \<^verbatim>\<open>fobj = self.session.query(File).filter(File.id.in_(ids))\<close> builds a query and does
  not run it; the query runs each time the loop iterates over \<^verbatim>\<open>fobj\<close>, binding the ids.
  The store is only read, so every run has the same outcome.
\<close>

definition paths_query :: "store \<Rightarrow> int list \<Rightarrow> error + File list" where
  "paths_query s ids = list_query ids (filter (\<lambda>k. File_id k \<in> set ids) (t_file s))"

text \<open>
  The loop of \<^verbatim>\<open>paths\<close>:
  \<^verbatim>\<open>for p in ids: retval.extend([k.make_path(prefix, suffix) for k in fobj if k.id == p])\<close>
\<close>

fun paths_loop ::
  "config \<Rightarrow> error + File list \<Rightarrow> string \<Rightarrow> string \<Rightarrow> string list \<Rightarrow> int list \<Rightarrow>
   error + string list" where
  "paths_loop cfg fobj prefix suffix retval [] = Inr retval"
| "paths_loop cfg fobj prefix suffix retval (p # ps) =
     ebind fobj (\<lambda>rows.
       paths_loop cfg fobj prefix suffix
         (retval @ [File_make_path cfg k prefix suffix. k \<leftarrow> rows, File_id k = p]) ps)"

definition paths :: "config \<Rightarrow> Database \<Rightarrow> int list \<Rightarrow> string \<Rightarrow> string \<Rightarrow> error + string list" where
  "paths cfg self ids prefix suffix =
     ebind (assert_validity cfg self) (\<lambda>_.
     ebind (session_query self) (\<lambda>s.
     let fobj = paths_query s ids;
         retval = []
     in paths_loop cfg fobj prefix suffix retval ids))"

text \<open>
  \<^verbatim>\<open>reverse\<close> never assigns \<^verbatim>\<open>retval\<close>, and no statement of \<^verbatim>\<open>query.py\<close> binds the
  name at module level (the names imported from \<^verbatim>\<open>models.py\<close> are its tables and
  classes), so reading it raises \<^verbatim>\<open>NameError\<close>. The binding of the name is an option,
  \<open>None\<close> while the name is unbound.
\<close>

definition lookup_name :: "string \<Rightarrow> 'a option \<Rightarrow> error + 'a" where
  "lookup_name n binding =
     (case binding of
        None \<Rightarrow> Inl (NameError (''global name '' @ [CHR 0x27] @ n @ [CHR 0x27] @
                                 '' is not defined''))
      | Some v \<Rightarrow> Inr v)"

text \<open>
  The loop of \<^verbatim>\<open>reverse\<close>:
  \<^verbatim>\<open>for p in paths: retval.extend([k.id for k in fobj if k.path == p])\<close>
\<close>

fun reverse_loop ::
  "File list \<Rightarrow> int list option \<Rightarrow> string list \<Rightarrow> error + int list option" where
  "reverse_loop fobj retval [] = Inr retval"
| "reverse_loop fobj retval (p # ps) =
     ebind (lookup_name ''retval'' retval) (\<lambda>r.
       reverse_loop fobj (Some (r @ [File_id k. k \<leftarrow> fobj, File_path k = p])) ps)"

definition reverse :: "config \<Rightarrow> Database \<Rightarrow> string list \<Rightarrow> error + int list" where
  "reverse cfg self paths_arg =
     ebind (assert_validity cfg self) (\<lambda>_.
     ebind (session_query self) (\<lambda>s.
     let fobj = filter (\<lambda>k. File_path k \<in> set paths_arg) (t_file s);
         retval = None
     in ebind (reverse_loop fobj retval paths_arg) (\<lambda>retval.
          lookup_name ''retval'' retval)))"

section \<open>Vocabulary of the statements\<close>

text \<open>A call that returned, as opposed to one that raised.\<close>

fun returned :: "error + 'a \<Rightarrow> bool" where
  "returned (Inr v) = True"
| "returned (Inl e) = False"

text \<open>
  The selector values a caller supplied: none for \<^verbatim>\<open>None\<close> and for the empty string, the
  scalar itself, or the elements of the tuple or list.
\<close>

fun arg_values :: "string pyval option \<Rightarrow> string list" where
  "arg_values None = []"
| "arg_values (Some (PScalar s)) = (if s = [] then [] else [s])"
| "arg_values (Some (PSeq xs)) = items xs"

text \<open>
  A file that the dev/eval query of purpose \<open>p\<close> selects: a row of the \<^verbatim>\<open>File\<close> table
  whose client is a row of the \<^verbatim>\<open>Client\<close> table (of one of the genders, when genders are
  given), and which is associated with a protocol purpose of purpose \<open>p\<close>, of one of the
  groups, under a protocol of one of the names.
\<close>

definition purpose_file ::
  "store \<Rightarrow> string pyval \<Rightarrow> string pyval \<Rightarrow> string pyval \<Rightarrow> string \<Rightarrow> File \<Rightarrow> bool" where
  "purpose_file s pv gv xv p f =
     (f \<in> set (t_file s)
      \<and> list_ex (\<lambda>c. File_client_id f = Client_id c
                      \<and> (if truthy xv then Client_gender c \<in> set (in_values xv) else True))
            (t_client s)
      \<and> list_ex (\<lambda>pp. (ProtocolPurpose_id pp, File_id f)
                         \<in> set (protocolPurpose_file_association s)
                       \<and> ProtocolPurpose_sgroup pp \<in> set (in_values gv)
                       \<and> ProtocolPurpose_purpose pp = p
                       \<and> list_ex (\<lambda>pr. ProtocolPurpose_protocol_id pp = Protocol_id pr
                                        \<and> Protocol_name pr \<in> set (in_values pv))
                             (t_protocol s))
            (t_protocolPurpose s))"

text \<open>The file with a given id, if the table has one.\<close>

definition file_with_id :: "store \<Rightarrow> int \<Rightarrow> File option" where
  "file_with_id s p = find (\<lambda>k. File_id k = p) (t_file s)"

section \<open>A small store\<close>

text \<open>
  Modelled from the spec: the class constants of \<^verbatim>\<open>models.py\<close> and the driver's
  \<^verbatim>\<open>INFO\<close>, which are not part of the sources at hand. Section 3 of the specification
  gives the genders male and female, the groups world, dev and eval and the purposes enrol
  and probe; section 4.4 gives a path as prefix, stem and suffix concatenated.
\<close>

definition mobio_config :: config where
  "mobio_config =
     \<lparr>INFO_name = ''mobio'',
      SQLITE_FILE = ''/data/mobio/db.sql3'',
      Client_gender_choices = PTuple [''female'', ''male''],
      ProtocolPurpose_group_choices = PTuple [''dev'', ''eval'', ''world''],
      ProtocolPurpose_purpose_choices = PTuple [''enrol'', ''probe''],
      File_make_path = (\<lambda>f prefix suffix. prefix @ File_path f @ suffix)\<rparr>"

definition client1 :: Client where
  "client1 = \<lparr>Client_id = 1, Client_gender = ''male'', Client_sgroup = ''dev''\<rparr>"

definition client2 :: Client where
  "client2 = \<lparr>Client_id = 2, Client_gender = ''male'', Client_sgroup = ''dev''\<rparr>"

definition client3 :: Client where
  "client3 = \<lparr>Client_id = 3, Client_gender = ''female'', Client_sgroup = ''world''\<rparr>"

definition file5 :: File where
  "file5 = \<lparr>File_id = 5, File_client_id = 1, File_session_id = 1, File_speech_type = ''p'',
            File_shot_id = 1, File_device = ''mobile'', File_path = ''idiap/m001/s01_p01''\<rparr>"

definition file6 :: File where
  "file6 = \<lparr>File_id = 6, File_client_id = 2, File_session_id = 1, File_speech_type = ''p'',
            File_shot_id = 1, File_device = ''mobile'', File_path = ''idiap/m002/s01_p01''\<rparr>"

definition file7 :: File where
  "file7 = \<lparr>File_id = 7, File_client_id = 3, File_session_id = 1, File_speech_type = ''p'',
            File_shot_id = 1, File_device = ''mobile'', File_path = ''idiap/f003/s01_p01''\<rparr>"

definition tmodel1 :: TModel where
  "tmodel1 = \<lparr>TModel_id = ''f003_01'', TModel_client_id = 3\<rparr>"

definition small_store :: store where
  "small_store =
     \<lparr>t_client = [client1, client2, client3],
      t_subworld = [\<lparr>Subworld_id = 1, Subworld_name = ''onethird''\<rparr>,
                    \<lparr>Subworld_id = 2, Subworld_name = ''twothirds''\<rparr>],
      t_file = [file5, file6, file7],
      t_protocol = [\<lparr>Protocol_id = 1, Protocol_name = ''male''\<rparr>,
                    \<lparr>Protocol_id = 2, Protocol_name = ''female''\<rparr>],
      t_protocolPurpose =
        [\<lparr>ProtocolPurpose_id = 1, ProtocolPurpose_protocol_id = 1,
          ProtocolPurpose_sgroup = ''dev'', ProtocolPurpose_purpose = ''enrol''\<rparr>,
         \<lparr>ProtocolPurpose_id = 2, ProtocolPurpose_protocol_id = 1,
          ProtocolPurpose_sgroup = ''dev'', ProtocolPurpose_purpose = ''probe''\<rparr>],
      t_tmodel = [tmodel1],
      subworld_client_association = [(1, 3)],
      subworld_file_association = [(1, 7)],
      protocolPurpose_file_association = [(1, 5), (2, 5), (2, 6)],
      tmodel_file_association = [(''f003_01'', 7)]\<rparr>"

definition connected :: Database where
  "connected = \<lparr>session = Some small_store\<rparr>"

definition disconnected :: Database where
  "disconnected = \<lparr>session = None\<rparr>"

section \<open>Auxiliary facts\<close>

lemma ebind_Inl [simp]: "ebind (Inl e) f = Inl e"
  by (simp add: ebind_def)

lemma ebind_Inr [simp]: "ebind (Inr a) f = f a"
  by (simp add: ebind_def)

lemma ebind_Inr_iff: "ebind m f = Inr v \<longleftrightarrow> (\<exists>a. m = Inr a \<and> f a = Inr v)"
  by (cases m) simp_all

lemma set_unique_list [simp]: "set (unique_list xs) = set xs"
  by (simp add: unique_list_def)

lemma distinct_unique_list [simp]: "distinct (unique_list xs)"
  by (simp add: unique_list_def)

lemma substring_Nil [simp]: "substring [] s"
  by (cases s) simp_all

lemma substring_startswith: "startswith s k \<Longrightarrow> substring k s"
  by (cases s) auto

lemma substring_prefix: "substring k (k @ b)"
  by (rule substring_startswith) simp

lemma substring_left: "substring k s \<Longrightarrow> substring k (a @ s)"
  by (induction a) simp_all

lemma substring_mid: "substring k (a @ k @ b)"
  by (rule substring_left) (rule substring_prefix)

lemma check_each_find:
  "check_each obj valid ks =
     (case find (\<lambda>k. k \<notin> set (items valid)) ks of
        None \<Rightarrow> Inr ()
      | Some k \<Rightarrow> Inl (RuntimeError (invalid_message obj k valid)))"
  by (induction ks) simp_all

lemma check_each_ok: "set ks \<subseteq> set (items valid) \<Longrightarrow> check_each obj valid ks = Inr ()"
  by (induction ks) simp_all

lemma invalid_message_names:
  "substring obj (invalid_message obj k valid)"
  "substring k (invalid_message obj k valid)"
  "substring (py_str valid) (invalid_message obj k valid)"
proof -
  show "substring obj (invalid_message obj k valid)"
    unfolding invalid_message_def by (rule substring_mid)
  have "invalid_message obj k valid =
          (''Invalid '' @ obj @ [CHR 0x20, CHR 0x22]) @ k @
          ([CHR 0x22] @ ''. Valid values are '' @ py_str valid @ '', or lists/tuples of those'')"
    by (simp add: invalid_message_def)
  then show "substring k (invalid_message obj k valid)"
    by (simp only: substring_mid)
  have "invalid_message obj k valid =
          (''Invalid '' @ obj @ [CHR 0x20, CHR 0x22] @ k @ [CHR 0x22] @ ''. Valid values are '')
          @ py_str valid @ '', or lists/tuples of those''"
    by (simp add: invalid_message_def)
  then show "substring (py_str valid) (invalid_message obj k valid)"
    by (simp only: substring_mid)
qed

section \<open>The validator\<close>

text \<open>
  Claim C6. \<^verbatim>\<open>__check_validity__\<close> returns the default unchanged for an absent or empty
  value (\<^verbatim>\<open>None\<close>, the empty string, an empty tuple or list); treats a non-empty scalar as
  the one-element tuple holding it; returns a tuple or list unchanged when all its elements
  are among the valid values; and otherwise raises \<^verbatim>\<open>RuntimeError\<close> for the first element
  that is not valid, with a message that contains that element, the name of the axis and
  the rendering of the whole collection of valid values.
\<close>

theorem check_validity_contract:
  "(arg_values l = [] \<longrightarrow> check_validity l obj valid dflt = Inr dflt)
   \<and> (s \<noteq> [] \<longrightarrow>
        check_validity (Some (PScalar s)) obj valid dflt =
        check_validity (Some (PSeq (PTuple [s]))) obj valid dflt)
   \<and> (items xs \<noteq> [] \<and> set (items xs) \<subseteq> set (items valid) \<longrightarrow>
        check_validity (Some (PSeq xs)) obj valid dflt = Inr (PSeq xs))
   \<and> (find (\<lambda>k. k \<notin> set (items valid)) (items ys) = Some k \<longrightarrow>
        check_validity (Some (PSeq ys)) obj valid dflt =
          Inl (RuntimeError (invalid_message obj k valid))
        \<and> substring k (invalid_message obj k valid)
        \<and> substring obj (invalid_message obj k valid)
        \<and> substring (py_str valid) (invalid_message obj k valid))"
proof (intro conjI impI)
  assume "arg_values l = []"
  then show "check_validity l obj valid dflt = Inr dflt"
    by (cases l rule: arg_values.cases) (simp_all split: if_splits)
next
  assume "s \<noteq> []"
  then show "check_validity (Some (PScalar s)) obj valid dflt =
        check_validity (Some (PSeq (PTuple [s]))) obj valid dflt"
    by simp
next
  assume "items xs \<noteq> [] \<and> set (items xs) \<subseteq> set (items valid)"
  then show "check_validity (Some (PSeq xs)) obj valid dflt = Inr (PSeq xs)"
    by (simp add: check_each_ok)
next
  assume f: "find (\<lambda>k. k \<notin> set (items valid)) (items ys) = Some k"
  then have "items ys \<noteq> []" by auto
  with f show "check_validity (Some (PSeq ys)) obj valid dflt =
          Inl (RuntimeError (invalid_message obj k valid))"
    by (simp add: check_each_find)
qed (rule invalid_message_names)+

text \<open>
  The contract at the inputs of the specification's example: gender values checked against
  male and female, with the message of the rejected value written out.
\<close>

theorem check_validity_contract_witness:
  "check_validity None ''gender'' (PTuple [''male'', ''female'']) (PScalar ''anything'')
     = Inr (PScalar ''anything'')
   \<and> check_validity (Some (PScalar ''male'')) ''gender'' (PTuple [''male'', ''female''])
        (PScalar ''anything'')
       = check_validity (Some (PSeq (PTuple [''male'']))) ''gender''
           (PTuple [''male'', ''female'']) (PScalar ''anything'')
   \<and> check_validity (Some (PSeq (PList [''male'', ''female''])))  ''gender''
        (PTuple [''male'', ''female'']) (PScalar ''anything'')
       = Inr (PSeq (PList [''male'', ''female'']))
   \<and> check_validity (Some (PSeq (PTuple [''bogus'']))) ''gender''
        (PTuple [''male'', ''female'']) (PScalar ''anything'')
       = Inl (RuntimeError (invalid_message ''gender'' ''bogus'' (PTuple [''male'', ''female''])))
   \<and> invalid_message ''gender'' ''bogus'' (PTuple [''male'', ''female'']) =
       ''Invalid gender '' @ [CHR 0x22] @ ''bogus'' @ [CHR 0x22] @ ''. Valid values are ('' @
       [CHR 0x27] @ ''male'' @ [CHR 0x27] @ '', '' @ [CHR 0x27] @ ''female'' @ [CHR 0x27] @
       ''), or lists/tuples of those''"
proof -
  note c = check_validity_contract [where l = None and valid = "PTuple [''male'', ''female'']"
      and s = "''male''" and xs = "PList [''male'', ''female'']" and ys = "PTuple [''bogus'']"
      and k = "''bogus''" and obj = "''gender''" and dflt = "PScalar ''anything''"]
  have h1: "arg_values None = []" by simp
  have h2: "''male'' \<noteq> []" by simp
  have h3: "items (PList [''male'', ''female'']) \<noteq> []
            \<and> set (items (PList [''male'', ''female'']))
                \<subseteq> set (items (PTuple [''male'', ''female'']))" by simp
  have h4: "find (\<lambda>k. k \<notin> set (items (PTuple [''male'', ''female''])))
              (items (PTuple [''bogus''])) = Some ''bogus''" by simp
  have m: "invalid_message ''gender'' ''bogus'' (PTuple [''male'', ''female'']) =
       ''Invalid gender '' @ [CHR 0x22] @ ''bogus'' @ [CHR 0x22] @ ''. Valid values are ('' @
       [CHR 0x27] @ ''male'' @ [CHR 0x27] @ '', '' @ [CHR 0x27] @ ''female'' @ [CHR 0x27] @
       ''), or lists/tuples of those''"
    by (simp add: invalid_message_def py_repr_def repr_char_def Let_def)
  from c h1 h2 h3 h4 m show ?thesis by blast
qed

section \<open>The unavailable store\<close>

lemma assert_validity_invalid:
  "\<not> is_valid self \<Longrightarrow> assert_validity cfg self = Inl (RuntimeError (unavailable_message cfg))"
  by (simp add: assert_validity_def)

lemma protocol_names_invalid:
  "\<not> is_valid self \<Longrightarrow> protocol_names cfg self = Inl (RuntimeError (unavailable_message cfg))"
  by (simp add: protocol_names_def assert_validity_invalid)

lemma unavailable_message_location:
  "substring (SQLITE_FILE cfg) (unavailable_message cfg)"
proof -
  have "unavailable_message cfg =
          (''Database '' @ [CHR 0x27] @ INFO_name cfg @ [CHR 0x27] @
           '' cannot be found at expected location '' @ [CHR 0x27]) @ SQLITE_FILE cfg @
          ([CHR 0x27] @ ''. Create it and then try re-connecting using Database.connect()'')"
    by (simp add: unavailable_message_def)
  then show ?thesis by (simp only: substring_mid)
qed

lemma unavailable_message_recovery:
  "substring ''Create it and then try re-connecting using Database.connect()''
     (unavailable_message cfg)"
proof -
  have "unavailable_message cfg =
          (''Database '' @ [CHR 0x27] @ INFO_name cfg @ [CHR 0x27] @
           '' cannot be found at expected location '' @ [CHR 0x27] @ SQLITE_FILE cfg @
           [CHR 0x27] @ ''. '') @
          ''Create it and then try re-connecting using Database.connect()'' @ []"
    by (simp add: unavailable_message_def)
  then show ?thesis by (simp only: substring_mid)
qed

text \<open>
  Claim C7. On a \<^verbatim>\<open>Database\<close> whose session is \<^verbatim>\<open>None\<close>, each query-bearing method
  (\<^verbatim>\<open>clients\<close>, \<^verbatim>\<open>tclients\<close>, \<^verbatim>\<open>zclients\<close>, \<^verbatim>\<open>models\<close>, \<^verbatim>\<open>tmodels\<close>, \<^verbatim>\<open>objects\<close>,
  \<^verbatim>\<open>tobjects\<close>, \<^verbatim>\<open>zobjects\<close>, \<^verbatim>\<open>paths\<close>, \<^verbatim>\<open>reverse\<close> and the lookup helpers) ends with
  the \<^verbatim>\<open>RuntimeError\<close> of \<^verbatim>\<open>assert_validity\<close>, whatever its arguments: not with a
  validation error and not with the \<^verbatim>\<open>AttributeError\<close> that a query on the missing
  session would raise, so no query was reached. The message contains the expected location
  \<^verbatim>\<open>SQLITE_FILE\<close> and the instruction to create the file and re-connect.
\<close>

theorem unavailable_store_raised_first:
  assumes "\<not> is_valid self"
  shows "clients cfg self protocol1 groups1 subworld1 gender1
           = Inl (RuntimeError (unavailable_message cfg))
       \<and> tclients cfg self protocol2 groups2 subworld2 gender2
           = Inl (RuntimeError (unavailable_message cfg))
       \<and> zclients cfg self protocol3 groups3 subworld3 gender3
           = Inl (RuntimeError (unavailable_message cfg))
       \<and> models cfg self protocol4 groups4 subworld4 gender4
           = Inl (RuntimeError (unavailable_message cfg))
       \<and> tmodels cfg self protocol5 groups5 subworld5 gender5
           = Inl (RuntimeError (unavailable_message cfg))
       \<and> objects cfg self protocol6 purposes6 model_ids6 groups6 classes6 subworld6 gender6
           = Inl (RuntimeError (unavailable_message cfg))
       \<and> tobjects cfg self protocol7 model_ids7 groups7 subworld7 gender7
           = Inl (RuntimeError (unavailable_message cfg))
       \<and> zobjects cfg self protocol8 model_ids8 groups8 subworld8 gender8
           = Inl (RuntimeError (unavailable_message cfg))
       \<and> paths cfg self ids prefix suffix = Inl (RuntimeError (unavailable_message cfg))
       \<and> reverse cfg self stems = Inl (RuntimeError (unavailable_message cfg))
       \<and> subworld_names cfg self = Inl (RuntimeError (unavailable_message cfg))
       \<and> subworlds cfg self = Inl (RuntimeError (unavailable_message cfg))
       \<and> has_subworld cfg self name1 = Inl (RuntimeError (unavailable_message cfg))
       \<and> has_client_id cfg self id1 = Inl (RuntimeError (unavailable_message cfg))
       \<and> client cfg self id2 = Inl (RuntimeError (unavailable_message cfg))
       \<and> protocol_names cfg self = Inl (RuntimeError (unavailable_message cfg))
       \<and> protocols cfg self = Inl (RuntimeError (unavailable_message cfg))
       \<and> has_protocol cfg self name2 = Inl (RuntimeError (unavailable_message cfg))
       \<and> protocol cfg self name3 = Inl (RuntimeError (unavailable_message cfg))
       \<and> protocol_purposes cfg self = Inl (RuntimeError (unavailable_message cfg))
       \<and> substring (SQLITE_FILE cfg) (unavailable_message cfg)
       \<and> substring ''Create it and then try re-connecting using Database.connect()''
            (unavailable_message cfg)"
proof -
  note a = assert_validity_invalid [OF assms, of cfg]
  note p = protocol_names_invalid [OF assms, of cfg]
  have "clients cfg self protocol1 groups1 subworld1 gender1
           = Inl (RuntimeError (unavailable_message cfg))"
    by (simp add: clients_def a)
  moreover have "tclients cfg self protocol2 groups2 subworld2 gender2
           = Inl (RuntimeError (unavailable_message cfg))"
    by (simp add: tclients_def p)
  moreover have "zclients cfg self protocol3 groups3 subworld3 gender3
           = Inl (RuntimeError (unavailable_message cfg))"
    by (simp add: zclients_def a)
  moreover have "models cfg self protocol4 groups4 subworld4 gender4
           = Inl (RuntimeError (unavailable_message cfg))"
    by (simp add: models_def clients_def a)
  moreover have "tmodels cfg self protocol5 groups5 subworld5 gender5
           = Inl (RuntimeError (unavailable_message cfg))"
    by (simp add: tmodels_def a)
  moreover have "objects cfg self protocol6 purposes6 model_ids6 groups6 classes6 subworld6
           gender6 = Inl (RuntimeError (unavailable_message cfg))"
    by (simp add: objects_def a)
  moreover have "tobjects cfg self protocol7 model_ids7 groups7 subworld7 gender7
           = Inl (RuntimeError (unavailable_message cfg))"
    by (simp add: tobjects_def a)
  moreover have "zobjects cfg self protocol8 model_ids8 groups8 subworld8 gender8
           = Inl (RuntimeError (unavailable_message cfg))"
    by (simp add: zobjects_def a)
  moreover have "paths cfg self ids prefix suffix = Inl (RuntimeError (unavailable_message cfg))"
    by (simp add: paths_def a)
  moreover have "reverse cfg self stems = Inl (RuntimeError (unavailable_message cfg))"
    by (simp add: reverse_def a)
  moreover have "subworld_names cfg self = Inl (RuntimeError (unavailable_message cfg))"
    by (simp add: subworld_names_def a)
  moreover have "subworlds cfg self = Inl (RuntimeError (unavailable_message cfg))"
    by (simp add: subworlds_def a)
  moreover have "has_subworld cfg self name1 = Inl (RuntimeError (unavailable_message cfg))"
    by (simp add: has_subworld_def a)
  moreover have "has_client_id cfg self id1 = Inl (RuntimeError (unavailable_message cfg))"
    by (simp add: has_client_id_def a)
  moreover have "client cfg self id2 = Inl (RuntimeError (unavailable_message cfg))"
    by (simp add: client_def a)
  moreover note p
  moreover have "protocols cfg self = Inl (RuntimeError (unavailable_message cfg))"
    by (simp add: protocols_def a)
  moreover have "has_protocol cfg self name2 = Inl (RuntimeError (unavailable_message cfg))"
    by (simp add: has_protocol_def a)
  moreover have "protocol cfg self name3 = Inl (RuntimeError (unavailable_message cfg))"
    by (simp add: protocol_def a)
  moreover have "protocol_purposes cfg self = Inl (RuntimeError (unavailable_message cfg))"
    by (simp add: protocol_purposes_def a)
  moreover note unavailable_message_location [of cfg] unavailable_message_recovery [of cfg]
  ultimately show ?thesis by blast
qed

text \<open>
  The theorem on the disconnected database, for \<^verbatim>\<open>tclients\<close> with a group that would not
  validate, for \<^verbatim>\<open>objects\<close> and for \<^verbatim>\<open>reverse\<close>, with the message written out.
\<close>

theorem unavailable_store_raised_first_witness:
  "\<not> is_valid disconnected
   \<and> tclients mobio_config disconnected None (Some (PScalar ''bogus'')) None None
       = Inl (RuntimeError (unavailable_message mobio_config))
   \<and> objects mobio_config disconnected None None (Some (PScalar 1)) None None None None
       = Inl (RuntimeError (unavailable_message mobio_config))
   \<and> reverse mobio_config disconnected [''idiap/m001/s01_p01'']
       = Inl (RuntimeError (unavailable_message mobio_config))
   \<and> unavailable_message mobio_config =
       ''Database '' @ [CHR 0x27] @ ''mobio'' @ [CHR 0x27] @
       '' cannot be found at expected location '' @ [CHR 0x27] @ ''/data/mobio/db.sql3'' @
       [CHR 0x27] @ ''. Create it and then try re-connecting using Database.connect()''"
proof -
  have h: "\<not> is_valid disconnected"
    by (simp add: is_valid_def disconnected_def)
  have m: "unavailable_message mobio_config =
       ''Database '' @ [CHR 0x27] @ ''mobio'' @ [CHR 0x27] @
       '' cannot be found at expected location '' @ [CHR 0x27] @ ''/data/mobio/db.sql3'' @
       [CHR 0x27] @ ''. Create it and then try re-connecting using Database.connect()''"
    by (simp add: unavailable_message_def mobio_config_def)
  note t = unavailable_store_raised_first [OF h, where cfg = mobio_config
      and ?protocol2.0 = None and ?groups2.0 = "Some (PScalar ''bogus'')"
      and ?subworld2.0 = None and ?gender2.0 = None
      and ?protocol6.0 = None and ?purposes6.0 = None and ?model_ids6.0 = "Some (PScalar 1)"
      and ?groups6.0 = None and ?classes6.0 = None and ?subworld6.0 = None
      and ?gender6.0 = None and stems = "[''idiap/m001/s01_p01'']"]
  have t1: "tclients mobio_config disconnected None (Some (PScalar ''bogus'')) None None
       = Inl (RuntimeError (unavailable_message mobio_config))"
    using t by simp
  have t2: "objects mobio_config disconnected None None (Some (PScalar 1)) None None None None
       = Inl (RuntimeError (unavailable_message mobio_config))"
    using t by simp
  have t3: "reverse mobio_config disconnected [''idiap/m001/s01_p01'']
       = Inl (RuntimeError (unavailable_message mobio_config))"
    using t by simp
  show ?thesis by (intro conjI h t1 t2 t3 m)
qed

section \<open>T-norm and Z-norm clients\<close>

lemma returned_iff: "returned r \<longleftrightarrow> (\<exists>v. r = Inr v)"
  by (cases r) simp_all

lemma check_validity_world:
  "check_validity (Some (PScalar ''world'')) obj valid dflt = Inr g \<Longrightarrow> g = PSeq (PTuple [''world''])"
  by (auto simp: ebind_Inr_iff)

lemma select_clients_sgroup:
  "truthy gv \<Longrightarrow> c \<in> set (select_clients s pv gv sv xv) \<Longrightarrow>
   Client_sgroup c \<in> set (in_values gv)"
  by (simp add: select_clients_def Let_def split: if_splits)

lemma clients_world:
  assumes "clients cfg self protocol_arg (Some (PScalar ''world'')) subworld_arg gender_arg = Inr cs"
    and "c \<in> set cs"
  shows "Client_sgroup c = ''world''"
proof -
  from assms(1) obtain s pv gv sv xv where
      g: "check_validity (Some (PScalar ''world'')) ''group'' (groups cfg) (PScalar [])
            = Inr gv"
      and cs: "cs = select_clients s pv gv sv xv"
    unfolding clients_def Let_def by (auto simp: ebind_Inr_iff)
  from g have "gv = PSeq (PTuple [''world''])" by (rule check_validity_world)
  with cs assms(2) select_clients_sgroup [of gv c s pv sv xv]
  show ?thesis by simp
qed

lemma tclients_small:
  "tclients mobio_config connected None (Some (PScalar ''dev'')) (Some (PScalar ''onethird'')) None
     = Inr [client3]"
  by code_simp

lemma zclients_small:
  "zclients mobio_config connected None (Some (PScalar ''dev'')) (Some (PScalar ''onethird'')) None
     = Inr [client3]"
  by code_simp

text \<open>
  Claim C2. Every client that \<^verbatim>\<open>tclients\<close> or \<^verbatim>\<open>zclients\<close> returns has group
  \<^verbatim>\<open>'world'\<close>, whatever the arguments. The \<^verbatim>\<open>groups\<close> argument is only validated against
  \<^verbatim>\<open>('dev', 'eval')\<close>: two values that pass the validation give the same outcome, and a
  value that does not pass makes the call raise.
\<close>

theorem tclients_zclients_world:
  "(tclients cfg self protocol_arg groups_arg subworld_arg gender_arg = Inr ts \<longrightarrow>
      (\<forall>c \<in> set ts. Client_sgroup c = ''world''))
   \<and> (zclients cfg self protocol_arg groups_arg subworld_arg gender_arg = Inr zs \<longrightarrow>
      (\<forall>c \<in> set zs. Client_sgroup c = ''world''))
   \<and> (returned (check_validity g1 ''group'' (PTuple [''dev'', ''eval'']) (PScalar []))
       \<and> returned (check_validity g2 ''group'' (PTuple [''dev'', ''eval'']) (PScalar [])) \<longrightarrow>
        tclients cfg self protocol_arg g1 subworld_arg gender_arg
          = tclients cfg self protocol_arg g2 subworld_arg gender_arg
        \<and> zclients cfg self protocol_arg g1 subworld_arg gender_arg
          = zclients cfg self protocol_arg g2 subworld_arg gender_arg)
   \<and> (\<not> returned (check_validity g3 ''group'' (PTuple [''dev'', ''eval'']) (PScalar [])) \<longrightarrow>
        \<not> returned (tclients cfg self protocol_arg g3 subworld_arg gender_arg)
        \<and> \<not> returned (zclients cfg self protocol_arg g3 subworld_arg gender_arg))"
proof (intro conjI impI ballI)
  fix c
  assume "tclients cfg self protocol_arg groups_arg subworld_arg gender_arg = Inr ts"
    and "c \<in> set ts"
  then show "Client_sgroup c = ''world''"
    unfolding tclients_def Let_def by (auto simp: ebind_Inr_iff dest: clients_world)
next
  fix c
  assume "zclients cfg self protocol_arg groups_arg subworld_arg gender_arg = Inr zs"
    and "c \<in> set zs"
  then show "Client_sgroup c = ''world''"
    unfolding zclients_def Let_def by (auto simp: ebind_Inr_iff dest: clients_world)
next
  assume "returned (check_validity g1 ''group'' (PTuple [''dev'', ''eval'']) (PScalar []))
       \<and> returned (check_validity g2 ''group'' (PTuple [''dev'', ''eval'']) (PScalar []))"
  then obtain v1 v2 where
      v: "check_validity g1 ''group'' (PTuple [''dev'', ''eval'']) (PScalar []) = Inr v1"
         "check_validity g2 ''group'' (PTuple [''dev'', ''eval'']) (PScalar []) = Inr v2"
    by (auto simp: returned_iff)
  from v show "tclients cfg self protocol_arg g1 subworld_arg gender_arg
          = tclients cfg self protocol_arg g2 subworld_arg gender_arg"
    by (simp add: tclients_def)
  from v show "zclients cfg self protocol_arg g1 subworld_arg gender_arg
          = zclients cfg self protocol_arg g2 subworld_arg gender_arg"
    by (simp add: zclients_def)
next
  assume n: "\<not> returned (check_validity g3 ''group'' (PTuple [''dev'', ''eval'']) (PScalar []))"
  then obtain e where
      e: "check_validity g3 ''group'' (PTuple [''dev'', ''eval'']) (PScalar []) = Inl e"
    by (cases "check_validity g3 ''group'' (PTuple [''dev'', ''eval'']) (PScalar [])") simp_all
  show "\<not> returned (tclients cfg self protocol_arg g3 subworld_arg gender_arg)"
    by (auto simp: tclients_def Let_def ebind_def e split: sum.splits)
  show "\<not> returned (zclients cfg self protocol_arg g3 subworld_arg gender_arg)"
    by (auto simp: zclients_def Let_def ebind_def e split: sum.splits)
qed

text \<open>
  On the small store: the T-norm and Z-norm clients asked for group \<^verbatim>\<open>'dev'\<close> are the
  one world client; asking for \<^verbatim>\<open>['eval', 'dev']\<close> changes nothing; \<^verbatim>\<open>'world'\<close> itself
  is refused as a group.
\<close>

theorem tclients_zclients_world_witness:
  "tclients mobio_config connected None (Some (PScalar ''dev'')) (Some (PScalar ''onethird'')) None
     = Inr [client3]
   \<and> zclients mobio_config connected None (Some (PScalar ''dev'')) (Some (PScalar ''onethird''))
       None = Inr [client3]
   \<and> Client_sgroup client3 = ''world''
   \<and> tclients mobio_config connected None (Some (PScalar ''dev'')) (Some (PScalar ''onethird''))
       None
     = tclients mobio_config connected None (Some (PSeq (PList [''eval'', ''dev''])))
         (Some (PScalar ''onethird'')) None
   \<and> \<not> returned (zclients mobio_config connected None (Some (PScalar ''world''))
                   (Some (PScalar ''onethird'')) None)"
proof -
  note t = tclients_zclients_world [where cfg = mobio_config and self = connected
      and protocol_arg = None and groups_arg = "Some (PScalar ''dev'')"
      and subworld_arg = "Some (PScalar ''onethird'')" and gender_arg = None
      and ts = "[client3]" and zs = "[client3]"
      and ?g1.0 = "Some (PScalar ''dev'')" and ?g2.0 = "Some (PSeq (PList [''eval'', ''dev'']))"
      and ?g3.0 = "Some (PScalar ''world'')"]
  have h1: "returned (check_validity (Some (PScalar ''dev'')) ''group'' (PTuple [''dev'', ''eval''])
              (PScalar []))
            \<and> returned (check_validity (Some (PSeq (PList [''eval'', ''dev'']))) ''group''
                 (PTuple [''dev'', ''eval'']) (PScalar []))"
    by simp
  have h2: "\<not> returned (check_validity (Some (PScalar ''world'')) ''group''
                (PTuple [''dev'', ''eval'']) (PScalar []))"
    by simp
  from t tclients_small have "\<forall>c \<in> set [client3]. Client_sgroup c = ''world''"
    by blast
  then have w: "Client_sgroup client3 = ''world''" by simp
  from t tclients_small zclients_small h1 h2 w show ?thesis by blast
qed

section \<open>T-norm models\<close>

lemma protocol_names_assert:
  "protocol_names cfg self = Inr names \<Longrightarrow> assert_validity cfg self = Inr ()"
  by (cases "assert_validity cfg self") (simp_all add: protocol_names_def)

lemma protocol_names_small: "protocol_names mobio_config connected = Inr [''male'', ''female'']"
  by code_simp

lemma tmodels_small:
  "tmodels mobio_config connected (Some (PScalar ''male'')) (Some (PScalar ''dev''))
     (Some (PScalar ''onethird'')) None = Inr [tmodel1]"
  by code_simp

text \<open>
  Claim C10. On a store whose protocol names are \<open>names\<close>, two calls of \<^verbatim>\<open>tmodels\<close>
  that differ only in the \<^verbatim>\<open>protocol\<close> and \<^verbatim>\<open>groups\<close> arguments, each of them accepted by
  the validator, give the same result: the two selectors are validated and not used.
\<close>

theorem tmodels_ignores_protocol_and_groups:
  assumes "protocol_names cfg self = Inr names"
    and "returned (check_validity p1 ''protocol'' (PList names) (PScalar []))"
    and "returned (check_validity p2 ''protocol'' (PList names) (PScalar []))"
    and "returned (check_validity g1 ''group'' (PTuple [''dev'', ''eval'']) (PScalar []))"
    and "returned (check_validity g2 ''group'' (PTuple [''dev'', ''eval'']) (PScalar []))"
  shows "tmodels cfg self p1 g1 subworld_arg gender_arg
           = tmodels cfg self p2 g2 subworld_arg gender_arg"
proof -
  from assms(2-5) obtain a b c d where
      "check_validity p1 ''protocol'' (PList names) (PScalar []) = Inr a"
      "check_validity p2 ''protocol'' (PList names) (PScalar []) = Inr b"
      "check_validity g1 ''group'' (PTuple [''dev'', ''eval'']) (PScalar []) = Inr c"
      "check_validity g2 ''group'' (PTuple [''dev'', ''eval'']) (PScalar []) = Inr d"
    by (auto simp: returned_iff)
  with assms(1) protocol_names_assert [OF assms(1)] show ?thesis
    by (simp add: tmodels_def)
qed

text \<open>
  On the small store, protocol \<^verbatim>\<open>'male'\<close> with group \<^verbatim>\<open>'dev'\<close> and protocol
  \<^verbatim>\<open>['female']\<close> with group \<^verbatim>\<open>'eval'\<close> both give the one T-norm model.
\<close>

theorem tmodels_ignores_protocol_and_groups_witness:
  "tmodels mobio_config connected (Some (PScalar ''male'')) (Some (PScalar ''dev''))
     (Some (PScalar ''onethird'')) None
   = tmodels mobio_config connected (Some (PSeq (PList [''female'']))) (Some (PScalar ''eval''))
       (Some (PScalar ''onethird'')) None
   \<and> tmodels mobio_config connected (Some (PScalar ''male'')) (Some (PScalar ''dev''))
     (Some (PScalar ''onethird'')) None = Inr [tmodel1]"
proof -
  have h: "returned (check_validity (Some (PScalar ''male'')) ''protocol''
             (PList [''male'', ''female'']) (PScalar []))"
     "returned (check_validity (Some (PSeq (PList [''female'']))) ''protocol''
             (PList [''male'', ''female'']) (PScalar []))"
     "returned (check_validity (Some (PScalar ''dev'')) ''group'' (PTuple [''dev'', ''eval''])
              (PScalar []))"
     "returned (check_validity (Some (PScalar ''eval'')) ''group'' (PTuple [''dev'', ''eval''])
              (PScalar []))"
    by simp_all
  from tmodels_ignores_protocol_and_groups [OF protocol_names_small h,
      of "Some (PScalar ''onethird'')" None] tmodels_small
  show ?thesis by simp
qed

section \<open>Facts about the selection of files\<close>

lemma check_each_Inr: "check_each obj valid ks = Inr u \<Longrightarrow> set ks \<subseteq> set (items valid)"
  by (induction ks) (simp_all split: if_splits)

lemma check_validity_accepts:
  "check_validity l obj valid dflt = Inr v \<Longrightarrow> arg_values l \<noteq> [] \<Longrightarrow>
   \<exists>q. v = PSeq q \<and> items q = arg_values l \<and> set (items q) \<subseteq> set (items valid)"
  by (cases l rule: arg_values.cases)
     (auto simp: ebind_Inr_iff split: if_splits dest: check_each_Inr)

lemma set_File_join_Client: "(f, c) \<in> set (File_join_Client s) \<Longrightarrow> f \<in> set (t_file s)"
  by (auto simp: File_join_Client_def)

lemma set_File_join_Protocol:
  "(f, c, pp, pr) \<in> set (File_join_Protocol s) \<Longrightarrow> f \<in> set (t_file s)"
  by (auto simp: File_join_Protocol_def dest: set_File_join_Client)

lemma set_purpose_rows:
  "(f, c, pp, pr) \<in> set (purpose_rows s pv gv p) \<Longrightarrow> f \<in> set (t_file s)"
  by (auto simp: purpose_rows_def dest: set_File_join_Protocol)

lemma world_files_subset: "set (world_files s sv xv mids) \<subseteq> set (t_file s)"
  by (auto simp: world_files_def Let_def dest: set_File_join_Client split: if_splits)

lemma enrol_files_subset: "set (enrol_files s pv gv xv mids) \<subseteq> set (t_file s)"
  by (auto simp: enrol_files_def Let_def dest: set_purpose_rows split: if_splits)

lemma probe_client_files_subset: "set (probe_client_files s pv gv xv mids) \<subseteq> set (t_file s)"
  by (auto simp: probe_client_files_def Let_def dest: set_purpose_rows split: if_splits)

lemma probe_impostor_files_subset: "set (probe_impostor_files s pv gv xv mids) \<subseteq> set (t_file s)"
  by (auto simp: probe_impostor_files_def Let_def dest: set_purpose_rows split: if_splits)

lemma list_query_Inr_iff:
  "list_query params rows = Inr r \<longleftrightarrow> list_all sqlite_integer params \<and> r = rows"
  by (auto simp: list_query_def bind_integers_def)

lemma list_query_in_range:
  "list_all sqlite_integer params \<Longrightarrow> list_query params rows = Inr rows"
  by (simp add: list_query_def bind_integers_def)

lemma set_list_of_set [simp]: "set (list_of_set xs) = set xs"
  by (simp add: list_of_set_def)

lemma distinct_list_of_set [simp]: "distinct (list_of_set xs)"
  by (simp add: list_of_set_def)

lemma extend_Inr_iff:
  "(if c then ebind (list_query ps rows) (\<lambda>r. Inr (retval @ r)) else Inr retval) = Inr x
   \<longleftrightarrow> (c \<longrightarrow> list_all sqlite_integer ps) \<and> x = retval @ (if c then rows else [])"
  by (cases c) (auto simp: ebind_Inr_iff list_query_Inr_iff)

lemma select_objects_Inr_eq:
  assumes "select_objects s pv uv mids gv cv sv xv = Inr fs"
  shows "fs = list_of_set
      ((if py_in ''world'' gv then world_files s sv xv mids else [])
       @ (if py_in ''dev'' gv \<or> py_in ''eval'' gv then
            (if py_in ''enrol'' uv then enrol_files s pv gv xv mids else [])
            @ (if py_in ''probe'' uv then
                 (if py_in ''client'' cv then probe_client_files s pv gv xv mids else [])
                 @ (if py_in ''impostor'' cv
                    then probe_impostor_files s pv gv xv mids else [])
               else [])
          else []))"
proof -
  from assms obtain r1 r2 where
      1: "(if py_in ''world'' gv
           then ebind (list_query (if items mids \<noteq> [] then items mids else [])
                         (world_files s sv xv mids)) (\<lambda>rows. Inr ([] @ rows))
           else Inr []) = Inr r1"
      and 2: "(if py_in ''dev'' gv \<or> py_in ''eval'' gv then
               ebind (if py_in ''enrol'' uv
                      then ebind (list_query
                                    (if items mids \<noteq> [] then items mids else [])
                                    (enrol_files s pv gv xv mids))
                             (\<lambda>rows. Inr (r1 @ rows))
                      else Inr r1) (\<lambda>retval.
               if py_in ''probe'' uv then
                 ebind (if py_in ''client'' cv
                        then ebind (list_query
                                      (if items mids \<noteq> [] then items mids else [])
                                      (probe_client_files s pv gv xv mids))
                               (\<lambda>rows. Inr (retval @ rows))
                        else Inr retval) (\<lambda>retval.
                 if py_in ''impostor'' cv
                 then ebind (list_query
                               (if py_len mids = 1 then items mids else [])
                               (probe_impostor_files s pv gv xv mids))
                        (\<lambda>rows. Inr (retval @ rows))
                 else Inr retval)
               else Inr retval)
             else Inr r1) = Inr r2"
      and 3: "fs = list_of_set r2"
    unfolding select_objects_def Let_def ebind_Inr_iff by blast
  from 1 have r1: "r1 = (if py_in ''world'' gv then world_files s sv xv mids else [])"
    by (simp only: extend_Inr_iff; simp?)
  show ?thesis
  proof (cases "py_in ''dev'' gv \<or> py_in ''eval'' gv")
    case False
    with 2 r1 3 show ?thesis by simp
  next
    case True
    with 2 obtain r3 where
        4: "(if py_in ''enrol'' uv
             then ebind (list_query (if items mids \<noteq> [] then items mids else [])
                           (enrol_files s pv gv xv mids)) (\<lambda>rows. Inr (r1 @ rows))
             else Inr r1) = Inr r3"
        and 5: "(if py_in ''probe'' uv then
                 ebind (if py_in ''client'' cv
                        then ebind (list_query
                                      (if items mids \<noteq> [] then items mids else [])
                                      (probe_client_files s pv gv xv mids))
                               (\<lambda>rows. Inr (r3 @ rows))
                        else Inr r3) (\<lambda>retval.
                 if py_in ''impostor'' cv
                 then ebind (list_query
                               (if py_len mids = 1 then items mids else [])
                               (probe_impostor_files s pv gv xv mids))
                        (\<lambda>rows. Inr (retval @ rows))
                 else Inr retval)
               else Inr r3) = Inr r2"
      by (auto simp only: if_True ebind_Inr_iff)
    from 4 have r3: "r3 = r1 @ (if py_in ''enrol'' uv then enrol_files s pv gv xv mids else [])"
      by (simp only: extend_Inr_iff; simp?)
    show ?thesis
    proof (cases "py_in ''probe'' uv")
      case False
      with 5 r3 r1 3 True show ?thesis by simp
    next
      case P: True
      with 5 obtain r4 where
          6: "(if py_in ''client'' cv
               then ebind (list_query (if items mids \<noteq> [] then items mids else [])
                             (probe_client_files s pv gv xv mids))
                      (\<lambda>rows. Inr (r3 @ rows))
               else Inr r3) = Inr r4"
          and 7: "(if py_in ''impostor'' cv
                 then ebind (list_query
                               (if py_len mids = 1 then items mids else [])
                               (probe_impostor_files s pv gv xv mids))
                        (\<lambda>rows. Inr (r4 @ rows))
                 else Inr r4) = Inr r2"
        by (auto simp only: if_True ebind_Inr_iff)
      from 6 have r4: "r4 = r3 @ (if py_in ''client'' cv
                                  then probe_client_files s pv gv xv mids else [])"
        by (simp only: extend_Inr_iff; simp?)
      from 7 have r2: "r2 = r4 @ (if py_in ''impostor'' cv
                                  then probe_impostor_files s pv gv xv mids else [])"
        by (simp only: extend_Inr_iff; simp?)
      from 3 r2 r4 r3 r1 True P show ?thesis by simp
    qed
  qed
qed


lemma select_objects_Inr:
  assumes "select_objects s pv uv mids gv cv sv xv = Inr fs"
  shows "distinct fs"
    and "set fs =
      (if py_in ''world'' gv then set (world_files s sv xv mids) else {})
      \<union> (if py_in ''dev'' gv \<or> py_in ''eval'' gv then
           (if py_in ''enrol'' uv then set (enrol_files s pv gv xv mids) else {})
           \<union> (if py_in ''probe'' uv then
                (if py_in ''client'' cv then set (probe_client_files s pv gv xv mids) else {})
                \<union> (if py_in ''impostor'' cv
                    then set (probe_impostor_files s pv gv xv mids) else {})
              else {})
         else {})"
proof -
  note e = select_objects_Inr_eq [OF assms]
  show "distinct fs" by (simp only: e distinct_list_of_set)
  have i: "set (if c then xs else []) = (if c then set xs else {})" for c and xs :: "File list"
    by simp
  show "set fs =
      (if py_in ''world'' gv then set (world_files s sv xv mids) else {})
      \<union> (if py_in ''dev'' gv \<or> py_in ''eval'' gv then
           (if py_in ''enrol'' uv then set (enrol_files s pv gv xv mids) else {})
           \<union> (if py_in ''probe'' uv then
                (if py_in ''client'' cv then set (probe_client_files s pv gv xv mids) else {})
                \<union> (if py_in ''impostor'' cv
                    then set (probe_impostor_files s pv gv xv mids) else {})
              else {})
         else {})"
  proof (cases "py_in ''dev'' gv \<or> py_in ''eval'' gv")
    case False
    then show ?thesis by (simp only: e set_list_of_set set_append i if_False list.set)
  next
    case True
    show ?thesis
    proof (cases "py_in ''probe'' uv")
      case False
      with True show ?thesis
        by (simp only: e set_list_of_set set_append i if_True if_False list.set)
    next
      case P: True
      with True show ?thesis
        by (simp only: e set_list_of_set set_append i if_True)
    qed
  qed
qed

lemma select_objects_returns:
  assumes "list_all sqlite_integer (items mids)"
  shows "\<exists>fs. select_objects s pv uv mids gv cv sv xv = Inr fs"
proof -
  have p: "list_all sqlite_integer (if c then items mids else [])" for c
    using assms by simp
  show ?thesis
    unfolding select_objects_def Let_def
    by (simp add: list_query_in_range [OF p])
qed

lemma select_objects_world_bound:
  assumes "select_objects s pv uv mids gv cv sv xv = Inr fs" and "py_in ''world'' gv"
  shows "list_all sqlite_integer (items mids)"
proof -
  from assms(1) obtain r1 where
      "(if py_in ''world'' gv
           then ebind (list_query (if items mids \<noteq> [] then items mids else [])
                         (world_files s sv xv mids)) (\<lambda>rows. Inr ([] @ rows))
           else Inr []) = Inr r1"
    unfolding select_objects_def Let_def ebind_Inr_iff by blast
  with assms(2) have "list_all sqlite_integer (if items mids \<noteq> [] then items mids else [])"
    by (simp only: extend_Inr_iff; simp?)
  then show ?thesis by (cases "items mids = []") simp_all
qed


lemma select_objects_subset:
  assumes "select_objects s pv uv mids gv cv sv xv = Inr fs"
  shows "set fs \<subseteq> set (t_file s)"
  using world_files_subset [of s sv xv mids] enrol_files_subset [of s pv gv xv mids]
    probe_client_files_subset [of s pv gv xv mids]
    probe_impostor_files_subset [of s pv gv xv mids]
  unfolding select_objects_Inr(2) [OF assms]
  by (auto split: if_splits)

lemma objects_Inr:
  assumes "objects cfg self protocol_arg purposes_arg model_ids_arg groups_arg classes_arg
             subworld_arg gender_arg = Inr fs"
  obtains s names snames pv uv gv cv sv xv where
    "session self = Some s"
    "protocol_names cfg self = Inr names"
    "subworld_names cfg self = Inr snames"
    "check_validity protocol_arg ''protocol'' (PList names) (PSeq (PList names)) = Inr pv"
    "check_validity purposes_arg ''purpose'' (purposes cfg) (PSeq (purposes cfg)) = Inr uv"
    "check_validity groups_arg ''group'' (groups cfg) (PSeq (groups cfg)) = Inr gv"
    "check_validity classes_arg ''class'' (PTuple [''client'', ''impostor''])
       (PSeq (PTuple [''client'', ''impostor''])) = Inr cv"
    "check_validity subworld_arg ''subworld'' (PList snames) (PScalar []) = Inr sv"
    "check_validity gender_arg ''gender'' (genders cfg) (PScalar []) = Inr xv"
    "select_objects s pv uv (normalise_model_ids model_ids_arg) gv cv sv xv = Inr fs"
  using assms unfolding objects_def Let_def session_query_def
  by (auto simp: ebind_Inr_iff split: option.splits)

lemma connected_session: "session connected = Some small_store"
  by (simp add: connected_def)

lemma small_store_ids: "distinct (map File_id (t_file small_store))"
  by (simp add: small_store_def file5_def file6_def file7_def)

lemma objects_small_all:
  "objects mobio_config connected None None None None None None None = Inr [file7, file5, file6]"
  by code_simp

lemma impostor_small:
  "probe_impostor_files small_store (PSeq (PList [''male''])) (PSeq (PTuple [''dev'']))
     (PScalar []) (normalise_model_ids (Some (PScalar 1))) = [file6]"
  by code_simp

lemma objects_small_scalar:
  "objects mobio_config connected None (Some (PScalar ''probe'')) (Some (PScalar 1))
     (Some (PScalar ''dev'')) (Some (PScalar ''impostor'')) None None = Inr [file6]"
  by code_simp

lemma objects_small_world:
  "objects mobio_config connected None None None (Some (PScalar ''world'')) None None None
     = Inr [file7]"
  by code_simp

section \<open>No duplicates\<close>

text \<open>
  Claim C4. The list that \<^verbatim>\<open>objects\<close> returns has no element twice, whatever the
  selectors and however many of the four blocks select a file; and when the ids of the
  \<^verbatim>\<open>File\<close> table are distinct (\<^verbatim>\<open>File.id\<close> is its primary key), no two returned files
  have the same id.
\<close>

theorem objects_no_duplicates:
  assumes "session self = Some s"
    and "objects cfg self protocol_arg purposes_arg model_ids_arg groups_arg classes_arg
           subworld_arg gender_arg = Inr fs"
  shows "distinct fs \<and> (distinct (map File_id (t_file s)) \<longrightarrow> distinct (map File_id fs))"
proof -
  from assms(2) obtain s' pv uv gv cv sv xv where
      s': "session self = Some s'"
      and fs: "select_objects s' pv uv (normalise_model_ids model_ids_arg) gv cv sv xv = Inr fs"
    by (rule objects_Inr)
  from s' assms(1) have "s' = s" by simp
  with fs have sub: "set fs \<subseteq> set (t_file s)" by (simp add: select_objects_subset)
  from fs have d: "distinct fs" by (rule select_objects_Inr(1))
  {
    assume "distinct (map File_id (t_file s))"
    then have "inj_on File_id (set (t_file s))" by (simp add: distinct_map)
    with sub have "inj_on File_id (set fs)" by (rule inj_on_subset [rotated])
    with d have "distinct (map File_id fs)" by (simp add: distinct_map)
  }
  with d show ?thesis by blast
qed

text \<open>
  On the small store with every selector left out: file 5 is selected by the enrol block
  and by both probe blocks, and is returned once.
\<close>

theorem objects_no_duplicates_witness:
  "session connected = Some small_store
   \<and> objects mobio_config connected None None None None None None None
       = Inr [file7, file5, file6]
   \<and> distinct (map File_id (t_file small_store))
   \<and> distinct [file7, file5, file6]
   \<and> distinct (map File_id [file7, file5, file6])"
  using objects_no_duplicates [OF connected_session objects_small_all]
    connected_session objects_small_all small_store_ids
  by blast

section \<open>Scalar model ids\<close>

lemma world_files_items:
  "items a = items b \<Longrightarrow> world_files s sv xv a = world_files s sv xv b"
  by (simp add: world_files_def Let_def cong: if_cong)

lemma enrol_files_items:
  "items a = items b \<Longrightarrow> enrol_files s pv gv xv a = enrol_files s pv gv xv b"
  by (simp add: enrol_files_def Let_def cong: if_cong)

lemma probe_client_files_items:
  "items a = items b \<Longrightarrow> probe_client_files s pv gv xv a = probe_client_files s pv gv xv b"
  by (simp add: probe_client_files_def Let_def cong: if_cong)

lemma probe_impostor_files_items:
  "items a = items b \<Longrightarrow> probe_impostor_files s pv gv xv a = probe_impostor_files s pv gv xv b"
  by (simp add: probe_impostor_files_def py_len_def Let_def cong: if_cong)

lemma select_objects_items:
  assumes "items a = items b"
  shows "select_objects s pv uv a gv cv sv xv = select_objects s pv uv b gv cv sv xv"
proof -
  have l: "py_len a = py_len b" using assms by (simp add: py_len_def)
  show ?thesis
    unfolding select_objects_def
    by (simp only: world_files_items [OF assms] enrol_files_items [OF assms]
          probe_client_files_items [OF assms] probe_impostor_files_items [OF assms] assms l)
qed

lemma impostor_excludes_model:
  "items mids = [m] \<Longrightarrow> f \<in> set (probe_impostor_files s pv gv xv mids) \<Longrightarrow>
   File_client_id f \<noteq> m"
  by (auto simp: probe_impostor_files_def Let_def py_len_def split: if_splits)

text \<open>
  Claim C9. A model id given as a scalar is wrapped into a one-element tuple, and
  \<^verbatim>\<open>objects\<close> gives the same outcome as for the one-element list of that id. The wrapped
  value has length 1, so the impostor block leaves out the files of that client.
\<close>

theorem objects_scalar_model_id:
  "objects cfg self protocol_arg purposes_arg (Some (PScalar m)) groups_arg classes_arg
     subworld_arg gender_arg
   = objects cfg self protocol_arg purposes_arg (Some (PSeq (PList [m]))) groups_arg classes_arg
       subworld_arg gender_arg
   \<and> py_len (normalise_model_ids (Some (PScalar m))) = 1
   \<and> (\<forall>f \<in> set (probe_impostor_files s pv gv xv (normalise_model_ids (Some (PScalar m)))).
         File_client_id f \<noteq> m)"
proof (intro conjI ballI)
  have e: "select_objects s' pv' uv' (normalise_model_ids (Some (PScalar m))) gv' cv' sv' xv'
           = select_objects s' pv' uv' (normalise_model_ids (Some (PSeq (PList [m])))) gv' cv'
               sv' xv'" for s' pv' uv' gv' cv' sv' xv'
    by (rule select_objects_items) simp
  show "objects cfg self protocol_arg purposes_arg (Some (PScalar m)) groups_arg classes_arg
     subworld_arg gender_arg
   = objects cfg self protocol_arg purposes_arg (Some (PSeq (PList [m]))) groups_arg classes_arg
       subworld_arg gender_arg"
    unfolding objects_def Let_def by (simp only: e)
next
  show "py_len (normalise_model_ids (Some (PScalar m))) = 1"
    by (simp add: py_len_def)
next
  fix f
  assume "f \<in> set (probe_impostor_files s pv gv xv (normalise_model_ids (Some (PScalar m))))"
  then show "File_client_id f \<noteq> m"
    by (rule impostor_excludes_model [rotated]) simp
qed

text \<open>
  On the small store, impostor probes against model 1 in group dev: the scalar 1 and the
  list [1] both give file 6, a file of client 2.
\<close>

theorem objects_scalar_model_id_witness:
  "objects mobio_config connected None (Some (PScalar ''probe'')) (Some (PScalar 1))
     (Some (PScalar ''dev'')) (Some (PScalar ''impostor'')) None None = Inr [file6]
   \<and> objects mobio_config connected None (Some (PScalar ''probe'')) (Some (PSeq (PList [1])))
     (Some (PScalar ''dev'')) (Some (PScalar ''impostor'')) None None = Inr [file6]
   \<and> file6 \<in> set (probe_impostor_files small_store (PSeq (PList [''male'']))
                     (PSeq (PTuple [''dev''])) (PScalar [])
                     (normalise_model_ids (Some (PScalar 1))))
   \<and> File_client_id file6 \<noteq> 1"
proof -
  note t = objects_scalar_model_id [where cfg = mobio_config and self = connected
      and protocol_arg = None and purposes_arg = "Some (PScalar ''probe'')" and m = 1
      and groups_arg = "Some (PScalar ''dev'')" and classes_arg = "Some (PScalar ''impostor'')"
      and subworld_arg = None and gender_arg = None and s = small_store
      and pv = "PSeq (PList [''male''])" and gv = "PSeq (PTuple [''dev''])" and xv = "PScalar []"]
  have i: "file6 \<in> set (probe_impostor_files small_store (PSeq (PList [''male'']))
                     (PSeq (PTuple [''dev''])) (PScalar [])
                     (normalise_model_ids (Some (PScalar 1))))"
    by (simp only: impostor_small) simp
  from t i objects_small_scalar show ?thesis by simp
qed

section \<open>Narrowing to the world group\<close>

text \<open>
  Claim C8. When \<^verbatim>\<open>objects\<close> returns for a \<^verbatim>\<open>groups\<close> argument that names only
  \<^verbatim>\<open>'world'\<close> (as a scalar, a tuple or a list), the call with the same other arguments and
  \<^verbatim>\<open>groups\<close> left out returns too, and every file of the first result is in the second.
\<close>

theorem objects_world_subset:
  assumes "set (arg_values groups_arg) = {''world''}"
    and "objects cfg self protocol_arg purposes_arg model_ids_arg groups_arg classes_arg
           subworld_arg gender_arg = Inr xs"
  shows "\<exists>ys. objects cfg self protocol_arg purposes_arg model_ids_arg None classes_arg
                 subworld_arg gender_arg = Inr ys
              \<and> set xs \<subseteq> set ys"
proof -
  from assms(2) obtain s names snames pv uv gv cv sv xv where
      o: "session self = Some s"
         "protocol_names cfg self = Inr names"
         "subworld_names cfg self = Inr snames"
         "check_validity protocol_arg ''protocol'' (PList names) (PSeq (PList names)) = Inr pv"
         "check_validity purposes_arg ''purpose'' (purposes cfg) (PSeq (purposes cfg)) = Inr uv"
         "check_validity classes_arg ''class'' (PTuple [''client'', ''impostor''])
            (PSeq (PTuple [''client'', ''impostor''])) = Inr cv"
         "check_validity subworld_arg ''subworld'' (PList snames) (PScalar []) = Inr sv"
         "check_validity gender_arg ''gender'' (genders cfg) (PScalar []) = Inr xv"
      and g: "check_validity groups_arg ''group'' (groups cfg) (PSeq (groups cfg)) = Inr gv"
      and xs: "select_objects s pv uv (normalise_model_ids model_ids_arg) gv cv sv xv = Inr xs"
    by (rule objects_Inr)
  have ne: "arg_values groups_arg \<noteq> []"
  proof
    assume "arg_values groups_arg = []"
    then have "set (arg_values groups_arg) = {}" by simp
    with assms(1) show False by simp
  qed
  from check_validity_accepts [OF g ne] obtain q where
      q0: "gv = PSeq q" "items q = arg_values groups_arg"
          "set (items q) \<subseteq> set (items (groups cfg))"
    by blast
  from q0 assms(1) have q: "gv = PSeq q" "set (items q) = {''world''}"
      "set (items q) \<subseteq> set (items (groups cfg))"
    by simp_all
  from q(2,3) have "{''world''} \<subseteq> set (items (groups cfg))" by simp
  then have w: "py_in ''world'' (PSeq (groups cfg))" by simp
  from q(1,2) have wq: "py_in ''world'' gv" and nd: "\<not> py_in ''dev'' gv"
    and nv: "\<not> py_in ''eval'' gv"
    by simp_all
  from select_objects_world_bound [OF xs wq]
  have r: "list_all sqlite_integer (items (normalise_model_ids model_ids_arg))" .
  from select_objects_returns [OF r] obtain ys where
      ys: "select_objects s pv uv (normalise_model_ids model_ids_arg) (PSeq (groups cfg))
             cv sv xv = Inr ys"
    by blast
  from o have a: "assert_validity cfg self = Inr ()"
    by (simp add: assert_validity_def is_valid_def)
  from o a ys have "objects cfg self protocol_arg purposes_arg model_ids_arg None classes_arg
                 subworld_arg gender_arg = Inr ys"
    by (simp add: objects_def session_query_def Let_def)
  moreover from select_objects_Inr(2) [OF xs] wq nd nv
  have "set xs = set (world_files s sv xv (normalise_model_ids model_ids_arg))"
    by simp
  moreover from select_objects_Inr(2) [OF ys] w
  have "set (world_files s sv xv (normalise_model_ids model_ids_arg)) \<subseteq> set ys"
    by simp
  ultimately show ?thesis by blast
qed

text \<open>
  On the small store: the world files are file 7, which is among the three files returned
  without a group restriction.
\<close>

theorem objects_world_subset_witness:
  "objects mobio_config connected None None None (Some (PScalar ''world'')) None None None
     = Inr [file7]
   \<and> objects mobio_config connected None None None None None None None
       = Inr [file7, file5, file6]
   \<and> (\<exists>ys. objects mobio_config connected None None None None None None None = Inr ys
            \<and> set [file7] \<subseteq> set ys)"
proof -
  have h: "set (arg_values (Some (PScalar ''world''))) = {''world''}" by simp
  note t = objects_world_subset [OF h objects_small_world]
  show ?thesis by (intro conjI objects_small_world objects_small_all t)
qed

section \<open>The impostor block\<close>

lemma set_File_join_Client_iff:
  "(f, c) \<in> set (File_join_Client s) \<longleftrightarrow>
   f \<in> set (t_file s) \<and> c \<in> set (t_client s) \<and> File_client_id f = Client_id c"
  by (auto simp: File_join_Client_def)

lemma set_File_join_Protocol_iff:
  "(f, c, pp, pr) \<in> set (File_join_Protocol s) \<longleftrightarrow>
   (f, c) \<in> set (File_join_Client s) \<and> pp \<in> set (t_protocolPurpose s)
   \<and> (ProtocolPurpose_id pp, File_id f) \<in> set (protocolPurpose_file_association s)
   \<and> pr \<in> set (t_protocol s) \<and> ProtocolPurpose_protocol_id pp = Protocol_id pr"
  by (auto simp: File_join_Protocol_def)

lemma set_purpose_rows_iff:
  "(f, c, pp, pr) \<in> set (purpose_rows s pv gv p) \<longleftrightarrow>
   (f, c, pp, pr) \<in> set (File_join_Protocol s)
   \<and> Protocol_name pr \<in> set (in_values pv)
   \<and> ProtocolPurpose_sgroup pp \<in> set (in_values gv)
   \<and> ProtocolPurpose_purpose pp = p"
  by (simp add: purpose_rows_def)

lemma purpose_file_iff:
  "purpose_file s pv gv xv p f \<longleftrightarrow>
   (\<exists>c pp pr. (f, c, pp, pr) \<in> set (purpose_rows s pv gv p)
      \<and> (truthy xv \<longrightarrow> Client_gender c \<in> set (in_values xv)))"
  unfolding purpose_file_def list_ex_iff set_purpose_rows_iff set_File_join_Protocol_iff
    set_File_join_Client_iff
  by (cases "truthy xv") (simp_all, blast+)

lemma probe_impostor_files_iff:
  "f \<in> set (probe_impostor_files s pv gv xv mids) \<longleftrightarrow>
   (\<exists>c pp pr. (f, c, pp, pr) \<in> set (purpose_rows s pv gv ''probe'')
      \<and> (truthy xv \<longrightarrow> Client_gender c \<in> set (in_values xv))
      \<and> (py_len mids = 1 \<longrightarrow> File_client_id f \<notin> set (items mids)))"
  by (cases "truthy xv"; cases "py_len mids = 1")
     (force simp: probe_impostor_files_def Let_def)+

lemma impostor_block_single:
  "items mids = [m] \<Longrightarrow>
   set (probe_impostor_files s pv gv xv mids)
     = {f. purpose_file s pv gv xv ''probe'' f \<and> File_client_id f \<noteq> m}"
  by (rule set_eqI) (simp add: probe_impostor_files_iff purpose_file_iff py_len_def, blast)

lemma impostor_block_other:
  "py_len mids \<noteq> 1 \<Longrightarrow>
   set (probe_impostor_files s pv gv xv mids) = {f. purpose_file s pv gv xv ''probe'' f}"
  by (rule set_eqI) (simp add: probe_impostor_files_iff purpose_file_iff)

lemma world_files_client:
  "f \<in> set (world_files s sv xv mids) \<Longrightarrow>
   \<exists>c \<in> set (t_client s). Client_sgroup c = ''world'' \<and> File_client_id f = Client_id c"
  by (force simp: world_files_def Let_def set_File_join_Client_iff split: if_splits)

lemma select_objects_has_impostor:
  assumes "select_objects s pv uv mids gv cv sv xv = Inr fs"
    and "py_in ''probe'' uv" and "py_in ''impostor'' cv"
    and "py_in ''dev'' gv \<or> py_in ''eval'' gv"
  shows "set (probe_impostor_files s pv gv xv mids) \<subseteq> set fs"
  unfolding select_objects_Inr(2) [OF assms(1)] using assms(2-4)
  by (simp only: if_True) blast

lemma select_objects_probe_impostor:
  assumes "select_objects s pv (PSeq q1) mids gv (PSeq q2) sv xv = Inr fs"
    and "set (items q1) = {''probe''}" and "set (items q2) = {''impostor''}"
  shows "set fs \<subseteq> (if py_in ''world'' gv then set (world_files s sv xv mids) else {})
                  \<union> set (probe_impostor_files s pv gv xv mids)"
proof -
  from assms(2,3) have "\<not> py_in ''enrol'' (PSeq q1)" "py_in ''probe'' (PSeq q1)"
      "\<not> py_in ''client'' (PSeq q2)" "py_in ''impostor'' (PSeq q2)"
    by simp_all
  then show ?thesis
    unfolding select_objects_Inr(2) [OF assms(1)]
    by (cases "py_in ''dev'' gv \<or> py_in ''eval'' gv") (simp_all only: if_True if_False, blast+)
qed

lemma impostor_small_one:
  "probe_impostor_files small_store (PSeq (PList [''male''])) (PSeq (PTuple [''dev'']))
     (PScalar []) (PList [2]) = [file5]"
  by code_simp

lemma purpose_file_small:
  "purpose_file small_store (PSeq (PList [''male''])) (PSeq (PTuple [''dev''])) (PScalar [])
     ''probe'' file5"
  by code_simp

lemma select_objects_small:
  "select_objects small_store (PSeq (PList [''male''])) (PSeq (PTuple [''enrol'', ''probe'']))
     (PList [1, 2]) (PSeq (PTuple [''dev''])) (PSeq (PTuple [''client'', ''impostor'']))
     (PScalar []) (PScalar []) = Inr [file5, file6]"
  by code_simp

lemma objects_small_impostor:
  "objects mobio_config connected None (Some (PScalar ''probe'')) (Some (PSeq (PList [1])))
     None (Some (PScalar ''impostor'')) None None = Inr [file6]"
  by code_simp

lemma small_store_world_clients:
  "\<forall>c \<in> set (t_client small_store). Client_sgroup c = ''world'' \<longrightarrow> Client_id c \<noteq> 1"
  by (simp add: small_store_def client1_def client2_def client3_def)

text \<open>
  Claim C1, as the code has it. With exactly one model id \<open>m\<close>, the impostor block of
  \<^verbatim>\<open>objects\<close> selects exactly the probe files of the protocols, groups and genders asked for
  whose \<^verbatim>\<open>client_id\<close> is not \<open>m\<close>. With no model id, or with two or more, it selects all
  those probe files, the files of the given models among them: no filter on the model ids
  is applied. When the purposes contain \<^verbatim>\<open>'probe'\<close>, the classes contain
  \<^verbatim>\<open>'impostor'\<close> and the groups contain \<^verbatim>\<open>'dev'\<close> or \<^verbatim>\<open>'eval'\<close>, what the block selects
  is part of the result. The whole result of \<^verbatim>\<open>objects\<close> for one model id \<open>m\<close> is free of
  the files of client \<open>m\<close> when the purposes name only \<^verbatim>\<open>'probe'\<close>, the classes name only
  \<^verbatim>\<open>'impostor'\<close>, and either the groups are given without \<^verbatim>\<open>'world'\<close> or no client of
  group world has the id \<open>m\<close>.
\<close>

theorem impostor_exclusion:
  "(items mids = [m] \<longrightarrow>
      set (probe_impostor_files s pv gv xv mids)
        = {f. purpose_file s pv gv xv ''probe'' f \<and> File_client_id f \<noteq> m})
   \<and> (py_len mids' \<noteq> 1 \<longrightarrow>
      set (probe_impostor_files s pv gv xv mids') = {f. purpose_file s pv gv xv ''probe'' f})
   \<and> (select_objects s pv uv mids'' gv cv sv xv = Inr fs'
       \<and> py_in ''probe'' uv \<and> py_in ''impostor'' cv
       \<and> (py_in ''dev'' gv \<or> py_in ''eval'' gv) \<longrightarrow>
      set (probe_impostor_files s pv gv xv mids'') \<subseteq> set fs')
   \<and> (objects cfg self protocol_arg purposes_arg model_ids_arg groups_arg classes_arg
         subworld_arg gender_arg = Inr fs
       \<and> session self = Some s0
       \<and> items (normalise_model_ids model_ids_arg) = [m0]
       \<and> set (arg_values purposes_arg) = {''probe''}
       \<and> set (arg_values classes_arg) = {''impostor''}
       \<and> ((arg_values groups_arg \<noteq> [] \<and> ''world'' \<notin> set (arg_values groups_arg))
          \<or> (\<forall>c \<in> set (t_client s0). Client_sgroup c = ''world'' \<longrightarrow> Client_id c \<noteq> m0)) \<longrightarrow>
      (\<forall>f \<in> set fs. File_client_id f \<noteq> m0))"
proof (intro conjI impI ballI)
  assume "items mids = [m]"
  then show "set (probe_impostor_files s pv gv xv mids)
        = {f. purpose_file s pv gv xv ''probe'' f \<and> File_client_id f \<noteq> m}"
    by (rule impostor_block_single)
next
  assume "py_len mids' \<noteq> 1"
  then show "set (probe_impostor_files s pv gv xv mids')
               = {f. purpose_file s pv gv xv ''probe'' f}"
    by (rule impostor_block_other)
next
  assume "select_objects s pv uv mids'' gv cv sv xv = Inr fs'
       \<and> py_in ''probe'' uv \<and> py_in ''impostor'' cv
       \<and> (py_in ''dev'' gv \<or> py_in ''eval'' gv)"
  then show "set (probe_impostor_files s pv gv xv mids'') \<subseteq> set fs'"
    using select_objects_has_impostor by blast
next
  fix f
  assume a: "objects cfg self protocol_arg purposes_arg model_ids_arg groups_arg classes_arg
         subworld_arg gender_arg = Inr fs
       \<and> session self = Some s0
       \<and> items (normalise_model_ids model_ids_arg) = [m0]
       \<and> set (arg_values purposes_arg) = {''probe''}
       \<and> set (arg_values classes_arg) = {''impostor''}
       \<and> ((arg_values groups_arg \<noteq> [] \<and> ''world'' \<notin> set (arg_values groups_arg))
          \<or> (\<forall>c \<in> set (t_client s0). Client_sgroup c = ''world'' \<longrightarrow> Client_id c \<noteq> m0))"
    and f: "f \<in> set fs"
  from a have o: "objects cfg self protocol_arg purposes_arg model_ids_arg groups_arg
                    classes_arg subworld_arg gender_arg = Inr fs"
    and s0: "session self = Some s0"
    and m: "items (normalise_model_ids model_ids_arg) = [m0]"
    and pu: "set (arg_values purposes_arg) = {''probe''}"
    and cl: "set (arg_values classes_arg) = {''impostor''}"
    and w: "(arg_values groups_arg \<noteq> [] \<and> ''world'' \<notin> set (arg_values groups_arg))
          \<or> (\<forall>c \<in> set (t_client s0). Client_sgroup c = ''world'' \<longrightarrow> Client_id c \<noteq> m0)"
    by blast+
  from o obtain s' pv' uv' gv' cv' sv' xv' where
      s': "session self = Some s'"
      and u: "check_validity purposes_arg ''purpose'' (purposes cfg) (PSeq (purposes cfg))
                = Inr uv'"
      and g: "check_validity groups_arg ''group'' (groups cfg) (PSeq (groups cfg)) = Inr gv'"
      and c: "check_validity classes_arg ''class'' (PTuple [''client'', ''impostor''])
                (PSeq (PTuple [''client'', ''impostor''])) = Inr cv'"
      and fs: "select_objects s' pv' uv' (normalise_model_ids model_ids_arg) gv' cv' sv' xv'
                 = Inr fs"
    by (rule objects_Inr)
  from s' s0 have ss: "s' = s0" by simp
  have pne: "arg_values purposes_arg \<noteq> []"
  proof
    assume "arg_values purposes_arg = []"
    then have "set (arg_values purposes_arg) = {}" by simp
    with pu show False by simp
  qed
  have cne: "arg_values classes_arg \<noteq> []"
  proof
    assume "arg_values classes_arg = []"
    then have "set (arg_values classes_arg) = {}" by simp
    with cl show False by simp
  qed
  from check_validity_accepts [OF u pne] obtain q1 where
      q1: "uv' = PSeq q1" "items q1 = arg_values purposes_arg" by blast
  from check_validity_accepts [OF c cne] obtain q2 where
      q2: "cv' = PSeq q2" "items q2 = arg_values classes_arg" by blast
  from q1 pu have s1: "set (items q1) = {''probe''}" by simp
  from q2 cl have s2: "set (items q2) = {''impostor''}" by simp
  from fs q1(1) q2(1)
  have "select_objects s' pv' (PSeq q1) (normalise_model_ids model_ids_arg) gv' (PSeq q2)
          sv' xv' = Inr fs"
    by simp
  from select_objects_probe_impostor [OF this s1 s2] f
  have d: "(py_in ''world'' gv'
            \<and> f \<in> set (world_files s' sv' xv' (normalise_model_ids model_ids_arg)))
           \<or> f \<in> set (probe_impostor_files s' pv' gv' xv' (normalise_model_ids model_ids_arg))"
    by (cases "py_in ''world'' gv'") auto
  show "File_client_id f \<noteq> m0"
  proof (cases "f \<in> set (probe_impostor_files s' pv' gv' xv'
                           (normalise_model_ids model_ids_arg))")
    case True
    with m show ?thesis by (rule impostor_excludes_model)
  next
    case False
    with d have pw: "py_in ''world'' gv'"
      and fw: "f \<in> set (world_files s' sv' xv' (normalise_model_ids model_ids_arg))"
      by blast+
    from w show ?thesis
    proof
      assume n: "arg_values groups_arg \<noteq> [] \<and> ''world'' \<notin> set (arg_values groups_arg)"
      then have gne: "arg_values groups_arg \<noteq> []" by blast
      from check_validity_accepts [OF g gne] obtain q3 where
          q3: "gv' = PSeq q3" "items q3 = arg_values groups_arg" by blast
      with n have "\<not> py_in ''world'' gv'" by simp
      with pw show ?thesis by blast
    next
      assume n: "\<forall>c \<in> set (t_client s0). Client_sgroup c = ''world'' \<longrightarrow> Client_id c \<noteq> m0"
      from world_files_client [OF fw] ss obtain c where
          "c \<in> set (t_client s0)" "Client_sgroup c = ''world''"
          "File_client_id f = Client_id c"
        by blast
      with n show ?thesis by simp
    qed
  qed
qed


text \<open>
  On the small store, for the probes of protocol male in group dev. Against model 2 the
  impostor block selects the probe files of the other clients, file 5 of client 1 among
  them. Against models 1 and 2 it selects every probe file, file 5 of client 1 included, and
  these are part of what the blocks return together. The call of the specification,
  impostor probes against model 1 with the groups left out, returns file 6 of client 2
  only: client 1 is not a world client.
\<close>

theorem impostor_exclusion_witness:
  "items (PList [2]) = [2::int]
   \<and> set (probe_impostor_files small_store (PSeq (PList [''male''])) (PSeq (PTuple [''dev'']))
            (PScalar []) (PList [2]))
       = {f. purpose_file small_store (PSeq (PList [''male''])) (PSeq (PTuple [''dev'']))
               (PScalar []) ''probe'' f \<and> File_client_id f \<noteq> 2}
   \<and> file5 \<in> set (probe_impostor_files small_store (PSeq (PList [''male'']))
                     (PSeq (PTuple [''dev''])) (PScalar []) (PList [2]))
   \<and> py_len (PList [1, 2 :: int]) \<noteq> 1
   \<and> purpose_file small_store (PSeq (PList [''male''])) (PSeq (PTuple [''dev''])) (PScalar [])
        ''probe'' file5
   \<and> File_client_id file5 = 1
   \<and> file5 \<in> set (probe_impostor_files small_store (PSeq (PList [''male'']))
                     (PSeq (PTuple [''dev''])) (PScalar []) (PList [1, 2]))
   \<and> select_objects small_store (PSeq (PList [''male''])) (PSeq (PTuple [''enrol'', ''probe'']))
        (PList [1, 2]) (PSeq (PTuple [''dev''])) (PSeq (PTuple [''client'', ''impostor'']))
        (PScalar []) (PScalar []) = Inr [file5, file6]
   \<and> set (probe_impostor_files small_store (PSeq (PList [''male''])) (PSeq (PTuple [''dev'']))
            (PScalar []) (PList [1, 2])) \<subseteq> set [file5, file6]
   \<and> objects mobio_config connected None (Some (PScalar ''probe'')) (Some (PSeq (PList [1])))
        None (Some (PScalar ''impostor'')) None None = Inr [file6]
   \<and> session connected = Some small_store
   \<and> items (normalise_model_ids (Some (PSeq (PList [1])))) = [1]
   \<and> set (arg_values (Some (PScalar ''probe''))) = {''probe''}
   \<and> set (arg_values (Some (PScalar ''impostor''))) = {''impostor''}
   \<and> File_client_id file6 \<noteq> 1"
proof -
  note t = impostor_exclusion [where mids = "PList [2]" and m = 2 and s = small_store
      and pv = "PSeq (PList [''male''])" and gv = "PSeq (PTuple [''dev''])" and xv = "PScalar []"
      and mids' = "PList [1, 2]" and mids'' = "PList [1, 2]"
      and uv = "PSeq (PTuple [''enrol'', ''probe''])"
      and cv = "PSeq (PTuple [''client'', ''impostor''])" and sv = "PScalar []"
      and fs' = "[file5, file6]"
      and ?m0.0 = 1 and ?s0.0 = small_store and cfg = mobio_config and self = connected
      and protocol_arg = None and purposes_arg = "Some (PScalar ''probe'')"
      and model_ids_arg = "Some (PSeq (PList [1]))" and groups_arg = None
      and classes_arg = "Some (PScalar ''impostor'')" and subworld_arg = None
      and gender_arg = None and fs = "[file6]"]
  have h1: "items (PList [2]) = [2::int]" by simp
  have h3: "py_len (PList [1, 2 :: int]) \<noteq> 1" by (simp add: py_len_def)
  have h4: "items (normalise_model_ids (Some (PSeq (PList [1])))) = [1]"
    and h5: "set (arg_values (Some (PScalar ''probe''))) = {''probe''}"
    and h6: "set (arg_values (Some (PScalar ''impostor''))) = {''impostor''}"
    and h7: "py_in ''probe'' (PSeq (PTuple [''enrol'', ''probe'']))"
    and h8: "py_in ''impostor'' (PSeq (PTuple [''client'', ''impostor'']))"
    and h9: "py_in ''dev'' (PSeq (PTuple [''dev'']))"
    by simp_all
  have f5: "File_client_id file5 = 1" by (simp add: file5_def)
  from t h1 have c1: "set (probe_impostor_files small_store (PSeq (PList [''male'']))
            (PSeq (PTuple [''dev''])) (PScalar []) (PList [2]))
       = {f. purpose_file small_store (PSeq (PList [''male''])) (PSeq (PTuple [''dev'']))
               (PScalar []) ''probe'' f \<and> File_client_id f \<noteq> 2}"
    by blast
  from f5 have "File_client_id file5 \<noteq> 2" by simp
  with c1 purpose_file_small
  have c1': "file5 \<in> set (probe_impostor_files small_store (PSeq (PList [''male'']))
                     (PSeq (PTuple [''dev''])) (PScalar []) (PList [2]))"
    by blast
  from t h3 have c2: "set (probe_impostor_files small_store (PSeq (PList [''male'']))
            (PSeq (PTuple [''dev''])) (PScalar []) (PList [1, 2]))
       = {f. purpose_file small_store (PSeq (PList [''male''])) (PSeq (PTuple [''dev'']))
               (PScalar []) ''probe'' f}"
    by blast
  with purpose_file_small
  have c2': "file5 \<in> set (probe_impostor_files small_store (PSeq (PList [''male'']))
                     (PSeq (PTuple [''dev''])) (PScalar []) (PList [1, 2]))"
    by blast
  from t select_objects_small h7 h8 h9
  have c3: "set (probe_impostor_files small_store (PSeq (PList [''male'']))
            (PSeq (PTuple [''dev''])) (PScalar []) (PList [1, 2])) \<subseteq> set [file5, file6]"
    by blast
  from t objects_small_impostor connected_session h4 h5 h6 small_store_world_clients
  have "\<forall>f \<in> set [file6]. File_client_id f \<noteq> 1"
    by blast
  then have c4: "File_client_id file6 \<noteq> 1" by simp
  show ?thesis
    by (intro conjI h1 c1 c1' h3 purpose_file_small f5 c2' select_objects_small c3
          objects_small_impostor connected_session h4 h5 h6 c4)
qed

text \<open>
  The claim as it is worded fails on the small store, for one model id each time. With the
  classes left out (so \<^verbatim>\<open>'client'\<close> too), the probes of group dev against model 1 contain
  file 5 of client 1, from the client block. With the purposes left out (so \<^verbatim>\<open>'enrol'\<close>
  too), the impostor files of group dev against model 1 contain file 5 again, from the
  enrol block. With the groups left out (so \<^verbatim>\<open>'world'\<close> too), the impostor probes against
  model 3 contain file 7 of the world client 3, from the world block.
\<close>

theorem impostor_exclusion_counterexample:
  "objects mobio_config connected None (Some (PScalar ''probe'')) (Some (PSeq (PList [1])))
     (Some (PScalar ''dev'')) None None None = Inr [file5, file6]
   \<and> File_client_id file5 = 1
   \<and> objects mobio_config connected None None (Some (PSeq (PList [1])))
     (Some (PScalar ''dev'')) (Some (PScalar ''impostor'')) None None = Inr [file5, file6]
   \<and> objects mobio_config connected None (Some (PScalar ''probe'')) (Some (PSeq (PList [3])))
     None (Some (PScalar ''impostor'')) None None = Inr [file7, file5, file6]
   \<and> File_client_id file7 = 3"
proof (intro conjI)
  show "objects mobio_config connected None (Some (PScalar ''probe'')) (Some (PSeq (PList [1])))
     (Some (PScalar ''dev'')) None None None = Inr [file5, file6]"
    by code_simp
  show "File_client_id file5 = 1" by (simp add: file5_def)
  show "objects mobio_config connected None None (Some (PSeq (PList [1])))
     (Some (PScalar ''dev'')) (Some (PScalar ''impostor'')) None None = Inr [file5, file6]"
    by code_simp
  show "objects mobio_config connected None (Some (PScalar ''probe'')) (Some (PSeq (PList [3])))
     None (Some (PScalar ''impostor'')) None None = Inr [file7, file5, file6]"
    by code_simp
  show "File_client_id file7 = 3" by (simp add: file7_def)
qed

section \<open>Paths for ids\<close>

lemma comprehension_filter:
  "[g k. k \<leftarrow> xs, P k] = map g (filter P xs)"
  by (induction xs) simp_all

lemma paths_loop_eq:
  "paths_loop cfg (Inr rows) prefix suffix retval ids =
     Inr (retval @ concat (map (\<lambda>p. map (\<lambda>k. File_make_path cfg k prefix suffix)
                                       (filter (\<lambda>k. File_id k = p) rows)) ids))"
  by (induction ids arbitrary: retval) (simp_all add: comprehension_filter)

lemma paths_query_in_range:
  "list_all sqlite_integer ids \<Longrightarrow>
   paths_query s ids = Inr (filter (\<lambda>k. File_id k \<in> set ids) (t_file s))"
  by (simp add: paths_query_def list_query_in_range)

lemma filter_key_find:
  "distinct (map h xs) \<Longrightarrow>
   filter (\<lambda>k. h k = p) xs = (case find (\<lambda>k. h k = p) xs of None \<Rightarrow> [] | Some k \<Rightarrow> [k])"
proof (induction xs)
  case Nil
  then show ?case by simp
next
  case (Cons a xs)
  show ?case
  proof (cases "h a = p")
    case True
    from Cons.prems have "h a \<notin> h ` set xs" by simp
    with True have "\<forall>k \<in> set xs. h k \<noteq> p" by (metis imageI)
    then have "filter (\<lambda>k. h k = p) xs = []" by (simp add: filter_empty_conv)
    with True show ?thesis by simp
  next
    case False
    with Cons show ?thesis by simp
  qed
qed

lemma filter_requested:
  "p \<in> set ids \<Longrightarrow>
   filter (\<lambda>k. File_id k = p) (filter (\<lambda>k. File_id k \<in> set ids) xs)
     = filter (\<lambda>k. File_id k = p) xs"
  by (induction xs) auto

text \<open>
  An id outside the range of a SQLite integer cannot be bound, and the query of
  \<^verbatim>\<open>paths\<close> fails for it.
\<close>

lemma paths_overflow_small:
  "paths mobio_config connected [2 ^ 63] ''/db/'' ''.wav'' = Inl OverflowError"
  by (simp add: paths_def connected_def assert_validity_def is_valid_def session_query_def
        paths_query_def list_query_def bind_integers_def sqlite_integer_def)

text \<open>
  Claim C5. On a connected store whose file ids are distinct (\<^verbatim>\<open>File.id\<close> is the primary
  key), and for ids that SQLite can hold as integers, \<^verbatim>\<open>paths\<close> returns, for the requested
  ids in their order and with their repetitions, the path made from the file of each id that
  has one; an id without a file adds nothing and raises nothing.
\<close>

theorem paths_in_input_order:
  assumes "session self = Some s"
    and "distinct (map File_id (t_file s))"
    and "list_all sqlite_integer ids"
  shows "paths cfg self ids prefix suffix =
           Inr (concat (map (\<lambda>p. case file_with_id s p of
                                     None \<Rightarrow> []
                                   | Some k \<Rightarrow> [File_make_path cfg k prefix suffix]) ids))"
proof -
  have a: "assert_validity cfg self = Inr ()"
    using assms(1) by (simp add: assert_validity_def is_valid_def)
  have e: "map (\<lambda>k. File_make_path cfg k prefix suffix)
             (filter (\<lambda>k. File_id k = p) (filter (\<lambda>k. File_id k \<in> set ids) (t_file s)))
           = (case file_with_id s p of
                None \<Rightarrow> []
              | Some k \<Rightarrow> [File_make_path cfg k prefix suffix])"
    if "p \<in> set ids" for p
  proof -
    have "filter (\<lambda>k. File_id k = p) (filter (\<lambda>k. File_id k \<in> set ids) (t_file s))
            = filter (\<lambda>k. File_id k = p) (t_file s)"
      using that by (rule filter_requested)
    also have "\<dots> = (case find (\<lambda>k. File_id k = p) (t_file s) of
                         None \<Rightarrow> [] | Some k \<Rightarrow> [k])"
      using assms(2) by (rule filter_key_find)
    finally show ?thesis
      by (simp only: file_with_id_def) (simp split: option.splits)
  qed
  have "paths cfg self ids prefix suffix =
          Inr (concat (map (\<lambda>p. map (\<lambda>k. File_make_path cfg k prefix suffix)
                 (filter (\<lambda>k. File_id k = p)
                    (filter (\<lambda>k. File_id k \<in> set ids) (t_file s)))) ids))"
    using assms(1) a
    by (simp add: paths_def session_query_def Let_def paths_query_in_range [OF assms(3)]
          paths_loop_eq)
  also have "map (\<lambda>p. map (\<lambda>k. File_make_path cfg k prefix suffix)
                 (filter (\<lambda>k. File_id k = p)
                    (filter (\<lambda>k. File_id k \<in> set ids) (t_file s)))) ids
           = map (\<lambda>p. case file_with_id s p of
                                     None \<Rightarrow> []
                                   | Some k \<Rightarrow> [File_make_path cfg k prefix suffix]) ids"
    by (rule map_cong [OF refl]) (rule e)
  finally show ?thesis .
qed

text \<open>
  The specification's example on the small store: ids 5, 99, 5, where no file has id 99,
  give the path of file 5 twice.
\<close>

theorem paths_in_input_order_witness:
  "session connected = Some small_store
   \<and> distinct (map File_id (t_file small_store))
   \<and> list_all sqlite_integer [5, 99, 5]
   \<and> file_with_id small_store 5 = Some file5
   \<and> file_with_id small_store 99 = None
   \<and> paths mobio_config connected [5, 99, 5] ''/db/'' ''.wav''
       = Inr [''/db/idiap/m001/s01_p01.wav'', ''/db/idiap/m001/s01_p01.wav'']"
proof -
  have r: "list_all sqlite_integer [5, 99, 5]"
    by (simp add: sqlite_integer_def)
  have f5: "file_with_id small_store 5 = Some file5"
    by (simp add: file_with_id_def small_store_def file5_def)
  have f99: "file_with_id small_store 99 = None"
    by (simp add: file_with_id_def small_store_def file5_def file6_def file7_def)
  have mp: "File_make_path mobio_config file5 ''/db/'' ''.wav'' = ''/db/idiap/m001/s01_p01.wav''"
    by (simp add: mobio_config_def file5_def)
  from paths_in_input_order [OF connected_session small_store_ids r, of mobio_config
      "''/db/''" "''.wav''"]
  have p: "paths mobio_config connected [5, 99, 5] ''/db/'' ''.wav''
       = Inr [''/db/idiap/m001/s01_p01.wav'', ''/db/idiap/m001/s01_p01.wav'']"
    by (simp add: f5 f99 mp)
  show ?thesis by (intro conjI connected_session small_store_ids r f5 f99 p)
qed

section \<open>Ids for paths\<close>

lemma reverse_connected:
  assumes "session self = Some s"
  shows "reverse cfg self stems = Inl (NameError (''global name '' @ [CHR 0x27] @ ''retval''
     @ [CHR 0x27] @ '' is not defined''))"
proof -
  have a: "assert_validity cfg self = Inr ()"
    using assms by (simp add: assert_validity_def is_valid_def)
  show ?thesis
  proof (cases stems)
    case Nil
    with assms a show ?thesis
      by (simp add: reverse_def session_query_def Let_def lookup_name_def)
  next
    case (Cons p ps)
    with assms a show ?thesis
      by (simp add: reverse_def session_query_def Let_def lookup_name_def)
  qed
qed

text \<open>
  Claim C3 against the code. On the connected small store \<^verbatim>\<open>reverse\<close> raises
  \<^verbatim>\<open>NameError\<close> for the stem of file 5, whose id it should return, and for the empty
  list, for which it should return the empty list: the function reads \<^verbatim>\<open>retval\<close> without
  ever binding it, where \<^verbatim>\<open>paths\<close> starts with \<^verbatim>\<open>retval = []\<close>.
\<close>

theorem reverse_raises_NameError:
  "reverse mobio_config connected [''idiap/m001/s01_p01'']
     = Inl (NameError (''global name '' @ [CHR 0x27] @ ''retval'' @ [CHR 0x27] @
                       '' is not defined''))
   \<and> reverse mobio_config connected []
     = Inl (NameError (''global name '' @ [CHR 0x27] @ ''retval'' @ [CHR 0x27] @
                       '' is not defined''))
   \<and> file_with_id small_store 5 = Some file5
   \<and> File_path file5 = ''idiap/m001/s01_p01''"
  by (simp add: reverse_connected [OF connected_session] file_with_id_def small_store_def
        file5_def)


end
